theory Spec2Isabelle
  imports Main
begin

section \<open>The background manager of \<^verbatim>\<open>db/background_mgr.go\<close>\<close>

text \<open>
  A shallow embedding of \<^verbatim>\<open>BackgroundManager\<close> and of the attachment compaction
  process. Go methods become functions on an explicit state: the manager struct, the
  state of the external collaborators (bucket, database), the store of terminators and
  the list of goroutines started so far. A Go \<^verbatim>\<open>error\<close> is an \<open>error option\<close>
  (\<open>None\<close> is \<^verbatim>\<open>nil\<close>), a \<^verbatim>\<open>[]byte\<close> that may be \<^verbatim>\<open>nil\<close> is a \<open>string option\<close>,
  and a panic is the result \<open>Panics\<close>.
\<close>

subsection \<open>Errors, times and results\<close>

datatype error =
    HTTPError nat string      \<comment> \<open>\<^verbatim>\<open>base.HTTPErrorf(status, message)\<close>\<close>
  | DocNotFoundError          \<comment> \<open>the bucket's key-not-found error\<close>
  | CasMismatchError          \<comment> \<open>the bucket's CAS-mismatch error\<close>
  | OtherError string         \<comment> \<open>any other error, with its message\<close>
  | WrappedError error string \<comment> \<open>\<^verbatim>\<open>pkgerrors.Wrap(err, message)\<close>\<close>

text \<open>Modelled from the spec: the error classifier helpers \<^verbatim>\<open>base.IsDocNotFoundError\<close> and
  \<^verbatim>\<open>base.IsCasMismatch\<close> (section 6), which are not part of the sources. Both are false
  on \<^verbatim>\<open>nil\<close>.\<close>

definition IsDocNotFoundError :: "error option \<Rightarrow> bool" where
  "IsDocNotFoundError err = (err = Some DocNotFoundError)"

definition IsCasMismatch :: "error option \<Rightarrow> bool" where
  "IsCasMismatch err = (err = Some CasMismatchError)"

datatype 'a go = Panics string | Returns 'a

text \<open>\<^verbatim>\<open>http.StatusServiceUnavailable\<close> and \<^verbatim>\<open>http.StatusInternalServerError\<close>.\<close>

abbreviation StatusServiceUnavailable :: nat where
  "StatusServiceUnavailable \<equiv> 503"

abbreviation StatusInternalServerError :: nat where
  "StatusInternalServerError \<equiv> 500"

text \<open>A \<^verbatim>\<open>time.Time\<close> is its number of nanoseconds since the Unix epoch, a
  \<^verbatim>\<open>time.Duration\<close> is a signed 64-bit count of nanoseconds. \<^verbatim>\<open>Time.Sub\<close> saturates
  at the least and the greatest duration. \<^verbatim>\<open>time.Unix\<close> carries whole seconds of \<open>nsec\<close>
  into \<open>sec\<close> and stores the seconds counted from year 1: both additions are 64-bit
  and wrap around.\<close>

type_synonym Time = int
type_synonym Duration = int

definition wrap64 :: "int \<Rightarrow> int" where
  "wrap64 i = (i + 2 ^ 63) mod 2 ^ 64 - 2 ^ 63"

definition unixToInternal :: int where
  "unixToInternal = 62135596800"

definition Unix :: "int \<Rightarrow> int \<Rightarrow> Time" where
  "Unix sec nsec =
     (wrap64 (wrap64 (sec + nsec div 1000000000) + unixToInternal) - unixToInternal) * 1000000000
     + nsec mod 1000000000"

definition Time_Unix :: "Time \<Rightarrow> int" where
  "Time_Unix t = t div 1000000000"

definition minDuration :: Duration where
  "minDuration = - (2 ^ 63)"

definition maxDuration :: Duration where
  "maxDuration = 2 ^ 63 - 1"

definition Sub :: "Time \<Rightarrow> Time \<Rightarrow> Duration" where
  "Sub t u = (if t - u < minDuration then minDuration
              else if maxDuration < t - u then maxDuration
              else t - u)"

definition Second :: Duration where
  "Second = 1000000000"

subsection \<open>States, actions and constants\<close>

type_synonym BackgroundProcessState = string

abbreviation BackgroundProcessStateRunning :: BackgroundProcessState where
  "BackgroundProcessStateRunning \<equiv> ''running''"

abbreviation BackgroundProcessStateCompleted :: BackgroundProcessState where
  "BackgroundProcessStateCompleted \<equiv> ''completed''"

abbreviation BackgroundProcessStateStopping :: BackgroundProcessState where
  "BackgroundProcessStateStopping \<equiv> ''stopping''"

abbreviation BackgroundProcessStateStopped :: BackgroundProcessState where
  "BackgroundProcessStateStopped \<equiv> ''stopped''"

abbreviation BackgroundProcessStateError :: BackgroundProcessState where
  "BackgroundProcessStateError \<equiv> ''error''"

definition BackgroundManagerHeartbeatExpirySecs :: int where
  "BackgroundManagerHeartbeatExpirySecs = 30"

definition BackgroundManagerHeartbeatIntervalSecs :: int where
  "BackgroundManagerHeartbeatIntervalSecs = 1"

definition BackgroundManagerStatusUpdateIntervalSecs :: int where
  "BackgroundManagerStatusUpdateIntervalSecs = 1"

subsection \<open>The structs\<close>

record ClusterAwareBackgroundManagerOptions =
  processSuffix :: string
  lastSuccessfulHeartbeatUnix :: int

record BackgroundManagerStatus =
  State :: BackgroundProcessState
  StartTime :: Time
  LastErrorMessage :: string

text \<open>The manager embeds \<^verbatim>\<open>BackgroundManagerStatus\<close>. Its terminator is a pointer: an
  address in the store of terminators. \<open>Process\<close> is the state of the process behind the
  interface; the methods of the interface are passed separately. The bucket of the
  cluster-aware options lives in the external state.\<close>

record 'p BackgroundManager = BackgroundManagerStatus +
  lastError :: "error option"
  terminator :: nat
  clusterAwareOptions :: "ClusterAwareBackgroundManagerOptions option"
  Process :: 'p

record HeartbeatDoc =
  ShouldStop :: bool

text \<open>The values of a \<^verbatim>\<open>map[string]interface{}\<close>: the options of a process.\<close>

datatype optval = VBool bool | VDatabase | VString string | VInt int

type_synonym options = "string \<rightharpoonup> optval"

text \<open>A value decoded from JSON into \<^verbatim>\<open>interface{}\<close>: a string, or anything else.\<close>

datatype 'j json = JString string | JOther 'j

datatype goroutine = HeartbeatLoop | StatusUpdateLoop | RunTask options

text \<open>The whole state: the manager, the external collaborators (bucket and database),
  which terminators are closed, the next free terminator address, and the goroutines
  started by \<^verbatim>\<open>go\<close> statements, latest last.\<close>

record ('p, 'x) world =
  mgr :: "'p BackgroundManager"
  ext :: 'x
  closed :: "nat \<Rightarrow> bool"
  nextTerminator :: nat
  spawned :: "goroutine list"

subsection \<open>External collaborators, taken as parameters\<close>

text \<open>The bucket. Each operation takes and returns the external state. \<open>GetRaw\<close> and
  \<open>GetAndTouchRaw\<close> return value, CAS and error as the Go functions do; \<open>WriteCas\<close>
  takes key, flags, expiry, CAS and value.\<close>

record 'x Bucket =
  GetRaw :: "string \<Rightarrow> 'x \<Rightarrow> (string option \<times> nat \<times> error option) \<times> 'x"
  WriteCas :: "string \<Rightarrow> nat \<Rightarrow> int \<Rightarrow> nat \<Rightarrow> string option \<Rightarrow> 'x \<Rightarrow> (nat \<times> error option) \<times> 'x"
  SetRaw :: "string \<Rightarrow> int \<Rightarrow> string option \<Rightarrow> 'x \<Rightarrow> error option \<times> 'x"
  SetDoc :: "string \<Rightarrow> int \<Rightarrow> HeartbeatDoc \<Rightarrow> 'x \<Rightarrow> error option \<times> 'x"
  Delete :: "string \<Rightarrow> 'x \<Rightarrow> error option \<times> 'x"
  GetAndTouchRaw :: "string \<Rightarrow> int \<Rightarrow> 'x \<Rightarrow> (string option \<times> nat \<times> error option) \<times> 'x"

text \<open>The helpers of package \<^verbatim>\<open>base\<close> that the file uses and the sources do not hold: the
  key prefix, the text of an error, and the JSON codec at the two types this part of the
  file decodes to.\<close>

record 'j base =
  SyncPrefix :: string
  ErrorString :: "error \<Rightarrow> string"
  JSONUnmarshalMap :: "string \<Rightarrow> (string \<rightharpoonup> 'j json) \<times> error option"
  JSONMarshalMap :: "(string \<rightharpoonup> 'j json) \<Rightarrow> string option \<times> error option"
  JSONUnmarshalHeartbeat :: "string \<Rightarrow> HeartbeatDoc \<times> error option"

text \<open>The bytes of a slice that may be \<^verbatim>\<open>nil\<close>: a nil slice has no bytes.\<close>

definition bytes :: "string option \<Rightarrow> string" where
  "bytes b = (case b of None \<Rightarrow> [] | Some s \<Rightarrow> s)"

text \<open>The process behind \<^verbatim>\<open>BackgroundManagerProcessI\<close>. \<open>Run\<close> takes the options, the
  status callback and the terminator.\<close>

record ('p, 'x) BackgroundManagerProcessI =
  Init :: "options \<Rightarrow> string option \<Rightarrow> ('p, 'x) world \<Rightarrow> (error option \<times> ('p, 'x) world) go"
  Run :: "options \<Rightarrow> (('p, 'x) world \<Rightarrow> error option \<times> ('p, 'x) world) \<Rightarrow> nat
          \<Rightarrow> ('p, 'x) world \<Rightarrow> (error option \<times> ('p, 'x) world) go"
  GetProcessStatus :: "BackgroundManagerStatus \<Rightarrow> 'p \<Rightarrow> (string option \<times> error option) \<times> 'p"
  ResetStatus :: "'p \<Rightarrow> 'p"

text \<open>\<^verbatim>\<open>base.RetryLoop\<close> with its sleeper, not part of the sources: it takes the worker,
  which returns whether to retry and an error.\<close>

type_synonym ('p, 'x) RetryLoop =
  "(('p, 'x) world \<Rightarrow> (bool \<times> error option) \<times> ('p, 'x) world)
   \<Rightarrow> ('p, 'x) world \<Rightarrow> error option \<times> ('p, 'x) world"

subsection \<open>The terminator\<close>

text \<open>Modelled from the spec: \<^verbatim>\<open>base.SafeTerminator\<close> (section 4.1), which is not part of
  the sources: a one-shot signal, \<open>Close\<close> idempotent, \<open>IsClosed\<close> a snapshot. A new
  terminator is open.\<close>

definition NewSafeTerminator :: "('p, 'x) world \<Rightarrow> nat \<times> ('p, 'x) world" where
  "NewSafeTerminator w =
     (nextTerminator w,
      w\<lparr>closed := (closed w)(nextTerminator w := False),
        nextTerminator := Suc (nextTerminator w)\<rparr>)"

definition Close :: "nat \<Rightarrow> ('p, 'x) world \<Rightarrow> ('p, 'x) world" where
  "Close t w = w\<lparr>closed := (closed w)(t := True)\<rparr>"

definition IsClosed :: "nat \<Rightarrow> ('p, 'x) world \<Rightarrow> bool" where
  "IsClosed t w = closed w t"

subsection \<open>The manager\<close>

definition HeartbeatDocID :: "'j base \<Rightarrow> ClusterAwareBackgroundManagerOptions \<Rightarrow> string" where
  "HeartbeatDocID bs b = SyncPrefix bs @ '':background_process:heartbeat:'' @ processSuffix b"

definition StatusDocID :: "'j base \<Rightarrow> ClusterAwareBackgroundManagerOptions \<Rightarrow> string" where
  "StatusDocID bs b = SyncPrefix bs @ '':background_process:status:'' @ processSuffix b"

definition isClusterAware :: "'p BackgroundManager \<Rightarrow> bool" where
  "isClusterAware b = (clusterAwareOptions b \<noteq> None)"

definition Terminate :: "('p, 'x) world \<Rightarrow> ('p, 'x) world" where
  "Terminate w = Close (terminator (mgr w)) w"

definition SetError :: "error option \<Rightarrow> ('p, 'x) world \<Rightarrow> ('p, 'x) world" where
  "SetError err w =
     Terminate (w\<lparr>mgr := (mgr w)\<lparr>lastError := err, State := BackgroundProcessStateError\<rparr>\<rparr>)"

definition setRunState :: "BackgroundProcessState \<Rightarrow> ('p, 'x) world \<Rightarrow> ('p, 'x) world" where
  "setRunState state w = w\<lparr>mgr := (mgr w)\<lparr>State := state\<rparr>\<rparr>"

definition GetRunState :: "('p, 'x) world \<Rightarrow> BackgroundProcessState" where
  "GetRunState w = State (mgr w)"

definition go_spawn :: "goroutine \<Rightarrow> ('p, 'x) world \<Rightarrow> ('p, 'x) world" where
  "go_spawn g w = w\<lparr>spawned := spawned w @ [g]\<rparr>"

text \<open>\<^verbatim>\<open>markStart\<close> (lines 180 to 231). The heartbeat goroutine is recorded as started.\<close>

definition markStart :: "'x Bucket \<Rightarrow> 'j base \<Rightarrow> ('p, 'x) world \<Rightarrow> error option \<times> ('p, 'x) world" where
  "markStart bk bs w =
     (let processAlreadyRunningErr = HTTPError StatusServiceUnavailable ''Process already running'' in
      case clusterAwareOptions (mgr w) of
        Some opts \<Rightarrow>
          (let ((_, err), x1) = WriteCas bk (HeartbeatDocID bs opts) 0
                                  BackgroundManagerHeartbeatExpirySecs 0 (Some ''{}'') (ext w);
               w1 = w\<lparr>ext := x1\<rparr>
           in if IsCasMismatch err then (Some processAlreadyRunningErr, w1)
              else
                (let (t, w2) = NewSafeTerminator w1;
                     w3 = w2\<lparr>mgr := (mgr w2)\<lparr>terminator := t\<rparr>\<rparr>;
                     w4 = go_spawn HeartbeatLoop w3
                 in (None, w4\<lparr>mgr := (mgr w4)\<lparr>State := BackgroundProcessStateRunning\<rparr>\<rparr>)))
      | None \<Rightarrow>
          if State (mgr w) = BackgroundProcessStateRunning then (Some processAlreadyRunningErr, w)
          else if State (mgr w) = BackgroundProcessStateStopping
          then (Some (HTTPError StatusServiceUnavailable
                        ''Process currently stopping. Wait until stopped to retry''), w)
          else
            (let (t, w2) = NewSafeTerminator w;
                 w3 = w2\<lparr>mgr := (mgr w2)\<lparr>terminator := t\<rparr>\<rparr>
             in (None, w3\<lparr>mgr := (mgr w3)\<lparr>State := BackgroundProcessStateRunning\<rparr>\<rparr>)))"

text \<open>\<^verbatim>\<open>markStop\<close> (lines 336 to 374) and \<^verbatim>\<open>Stop\<close> (lines 320 to 328).\<close>

definition markStop :: "'x Bucket \<Rightarrow> 'j base \<Rightarrow> ('p, 'x) world \<Rightarrow> error option \<times> ('p, 'x) world" where
  "markStop bk bs w =
     (let processAlreadyStoppedErr = HTTPError StatusServiceUnavailable ''Process already stopped'' in
      case clusterAwareOptions (mgr w) of
        Some opts \<Rightarrow>
          (let ((_, _, err), x1) = GetRaw bk (HeartbeatDocID bs opts) (ext w);
               w1 = w\<lparr>ext := x1\<rparr>
           in case err of
                Some e \<Rightarrow>
                  if IsDocNotFoundError err then (Some processAlreadyStoppedErr, w1)
                  else (Some (HTTPError StatusInternalServerError
                                (''Unable to verify whether a process is running: '' @ ErrorString bs e)), w1)
              | None \<Rightarrow>
                  (let (err2, x2) = SetDoc bk (HeartbeatDocID bs opts)
                                      BackgroundManagerHeartbeatExpirySecs \<lparr>ShouldStop = True\<rparr> x1;
                       w2 = w1\<lparr>ext := x2\<rparr>
                   in case err2 of
                        Some e \<Rightarrow>
                          (Some (HTTPError StatusInternalServerError
                                   (''Failed to mark process as stopping: '' @ ErrorString bs e)), w2)
                      | None \<Rightarrow>
                          (None,
                           if State (mgr w2) = BackgroundProcessStateRunning
                           then w2\<lparr>mgr := (mgr w2)\<lparr>State := BackgroundProcessStateStopping\<rparr>\<rparr>
                           else w2)))
      | None \<Rightarrow>
          if State (mgr w) = BackgroundProcessStateStopping
          then (Some (HTTPError StatusServiceUnavailable ''Process already stopping''), w)
          else if State (mgr w) = BackgroundProcessStateCompleted
                  \<or> State (mgr w) = BackgroundProcessStateStopped
          then (Some processAlreadyStoppedErr, w)
          else (None, w\<lparr>mgr := (mgr w)\<lparr>State := BackgroundProcessStateStopping\<rparr>\<rparr>))"

definition Stop :: "'x Bucket \<Rightarrow> 'j base \<Rightarrow> ('p, 'x) world \<Rightarrow> error option \<times> ('p, 'x) world" where
  "Stop bk bs w =
     (let (err, w1) = markStop bk bs w in
      case err of
        Some e \<Rightarrow> (err, w1)
      | None \<Rightarrow> (None, Terminate w1))"

text \<open>\<^verbatim>\<open>resetStatus\<close> (lines 311 to 318).\<close>

definition resetStatus ::
  "('p, 'x) BackgroundManagerProcessI \<Rightarrow> ('p, 'x) world \<Rightarrow> ('p, 'x) world" where
  "resetStatus P w =
     w\<lparr>mgr := (mgr w)\<lparr>lastError := None, LastErrorMessage := [],
                        Process := ResetStatus P (Process (mgr w))\<rparr>\<rparr>"

text \<open>\<^verbatim>\<open>getStatusLocal\<close> (lines 252 to 266). \<open>backgroundStatus\<close> is a copy of the embedded struct;
  the process sees the copy.\<close>

definition getStatusLocal ::
  "('p, 'x) BackgroundManagerProcessI \<Rightarrow> 'j base \<Rightarrow> ('p, 'x) world
   \<Rightarrow> (string option \<times> error option) \<times> ('p, 'x) world" where
  "getStatusLocal P bs w =
     (let b = mgr w;
          backgroundStatus = BackgroundManagerStatus.truncate b;
          backgroundStatus1 =
            (if State backgroundStatus = []
             then backgroundStatus\<lparr>State := BackgroundProcessStateCompleted\<rparr>
             else backgroundStatus);
          backgroundStatus2 =
            (case lastError b of
               Some e \<Rightarrow> backgroundStatus1\<lparr>LastErrorMessage := ErrorString bs e\<rparr>
             | None \<Rightarrow> backgroundStatus1);
          (res, p') = GetProcessStatus P backgroundStatus2 (Process b)
      in (res, w\<lparr>mgr := b\<lparr>Process := p'\<rparr>\<rparr>))"

text \<open>\<^verbatim>\<open>getStatusFromCluster\<close> (lines 268 to 309) and \<^verbatim>\<open>GetStatus\<close> (lines 233 to 250).
  \<^verbatim>\<open>sgbucket.Raw\<close> is a flag of the write that the bucket record leaves out. The error
  returned at the end is the variable \<^verbatim>\<open>err\<close> as last assigned: by the heartbeat read, or
  by the marshalling.\<close>

definition getStatusFromCluster ::
  "'x Bucket \<Rightarrow> 'j base \<Rightarrow> ('p, 'x) world
   \<Rightarrow> ((string option \<times> error option) \<times> ('p, 'x) world) go" where
  "getStatusFromCluster bk bs w =
     (case clusterAwareOptions (mgr w) of
        None \<Rightarrow> Panics ''nil pointer dereference''
      | Some opts \<Rightarrow>
          (let ((status, statusCas, err), x1) = GetRaw bk (StatusDocID bs opts) (ext w);
               w1 = w\<lparr>ext := x1\<rparr>
           in case err of
                Some e \<Rightarrow>
                  if IsDocNotFoundError err then Returns ((None, None), w1)
                  else Returns ((None, err), w1)
              | None \<Rightarrow>
                  (let (clusterStatus, err1) = JSONUnmarshalMap bs (bytes status) in
                   case err1 of
                     Some e \<Rightarrow> Returns ((None, err1), w1)
                   | None \<Rightarrow>
                       (case clusterStatus ''status'' of
                          Some (JString clusterState) \<Rightarrow>
                            if clusterState \<noteq> BackgroundProcessStateCompleted
                               \<and> clusterState \<noteq> BackgroundProcessStateStopped
                               \<and> clusterState \<noteq> BackgroundProcessStateError
                            then
                              (let ((_, _, err2), x2) = GetRaw bk (HeartbeatDocID bs opts) (ext w1);
                                   w2 = w1\<lparr>ext := x2\<rparr>
                               in case err2 of
                                    Some e \<Rightarrow>
                                      if IsDocNotFoundError err2 then
                                        (let clusterStatus1 =
                                               clusterStatus(''status'' \<mapsto> JString BackgroundProcessStateStopped);
                                             (status1, err3) = JSONMarshalMap bs clusterStatus1
                                         in case err3 of
                                              Some e \<Rightarrow> Returns ((None, err3), w2)
                                            | None \<Rightarrow>
                                                (let (_, x3) = WriteCas bk (StatusDocID bs opts) 0 0
                                                                 statusCas status1 (ext w2)
                                                 in Returns ((status1, err3), w2\<lparr>ext := x3\<rparr>)))
                                      else Returns ((status, err2), w2)
                                  | None \<Rightarrow> Returns ((status, err2), w2))
                            else Returns ((status, err1), w1)
                        | _ \<Rightarrow> Returns ((status, err1), w1)))))"

definition GetStatus ::
  "('p, 'x) BackgroundManagerProcessI \<Rightarrow> 'x Bucket \<Rightarrow> 'j base \<Rightarrow> ('p, 'x) world
   \<Rightarrow> ((string option \<times> error option) \<times> ('p, 'x) world) go" where
  "GetStatus P bk bs w =
     (if isClusterAware (mgr w) then
        (case getStatusFromCluster bk bs w of
           Panics m \<Rightarrow> Panics m
         | Returns ((status, err), w1) \<Rightarrow>
             (case err of
                Some e \<Rightarrow> Returns ((None, err), w1)
              | None \<Rightarrow>
                  if status = None then Returns (getStatusLocal P bs w1)
                  else Returns ((status, err), w1)))
      else Returns (getStatusLocal P bs w))"

text \<open>\<^verbatim>\<open>UpdateStatusClusterAware\<close> (lines 401 to 419).\<close>

definition UpdateStatusClusterAware ::
  "('p, 'x) BackgroundManagerProcessI \<Rightarrow> 'x Bucket \<Rightarrow> 'j base \<Rightarrow> ('p, 'x) RetryLoop
   \<Rightarrow> ('p, 'x) world \<Rightarrow> error option \<times> ('p, 'x) world" where
  "UpdateStatusClusterAware P bk bs retryLoop w =
     (case clusterAwareOptions (mgr w) of
        None \<Rightarrow> (None, w)
      | Some opts \<Rightarrow>
          retryLoop
            (\<lambda>v. let ((status, err), v1) = getStatusLocal P bs v in
                  case err of
                    Some e \<Rightarrow> ((True, err), v1)
                  | None \<Rightarrow>
                      (let (err1, x1) = SetRaw bk (StatusDocID bs opts) 0 status (ext v1);
                           v2 = v1\<lparr>ext := x1\<rparr>
                       in case err1 of
                            Some e \<Rightarrow> ((True, err1), v2)
                          | None \<Rightarrow> ((False, None), v2)))
            w)"

text \<open>\<^verbatim>\<open>UpdateHeartbeatDocClusterAware\<close> (lines 427 to 461). The comparison is between a
  \<^verbatim>\<open>time.Duration\<close> and the untyped constant
  \<^verbatim>\<open>BackgroundManagerHeartbeatExpirySecs - BackgroundManagerHeartbeatIntervalSecs\<close>, which Go
  converts to a \<^verbatim>\<open>time.Duration\<close>: a number of nanoseconds. \<open>now\<close> is what
  \<^verbatim>\<open>time.Now()\<close> returns; each path reads the clock once.\<close>

definition UpdateHeartbeatDocClusterAware ::
  "'x Bucket \<Rightarrow> 'j base \<Rightarrow> Time \<Rightarrow> ('p, 'x) world \<Rightarrow> (error option \<times> ('p, 'x) world) go" where
  "UpdateHeartbeatDocClusterAware bk bs now w =
     (case clusterAwareOptions (mgr w) of
        None \<Rightarrow> Panics ''nil pointer dereference''
      | Some opts \<Rightarrow>
          (let ((statusRaw, _, err), x1) =
                 GetAndTouchRaw bk (HeartbeatDocID bs opts) BackgroundManagerHeartbeatExpirySecs (ext w);
               w1 = w\<lparr>ext := x1\<rparr>
           in case err of
                Some e \<Rightarrow>
                  if IsDocNotFoundError err \<and> IsClosed (terminator (mgr w1)) w1
                  then Returns (None, w1)
                  else if Sub now (Unix (lastSuccessfulHeartbeatUnix opts) 0)
                          > BackgroundManagerHeartbeatExpirySecs - BackgroundManagerHeartbeatIntervalSecs
                  then Returns (err, w1)
                  else Returns (None, w1)
              | None \<Rightarrow>
                  (let (status, err1) = JSONUnmarshalHeartbeat bs (bytes statusRaw) in
                   case err1 of
                     Some e \<Rightarrow> Returns (err1, w1)
                   | None \<Rightarrow>
                       (let w2 = (if ShouldStop status then snd (Stop bk bs w1) else w1) in
                        Returns
                          (None,
                           w2\<lparr>mgr := (mgr w2)\<lparr>clusterAwareOptions :=
                                 map_option (\<lambda>c. c\<lparr>lastSuccessfulHeartbeatUnix := Time_Unix now\<rparr>)
                                   (clusterAwareOptions (mgr w2))\<rparr>\<rparr>)))))"

text \<open>\<^verbatim>\<open>Start\<close> (lines 96 to 178). \<open>now\<close> is the clock read for \<open>StartTime\<close>. The tasks started by \<^verbatim>\<open>go\<close> are
  recorded, not run: \<open>runTask\<close> below is the body of the second one.\<close>

definition Start ::
  "('p, 'x) BackgroundManagerProcessI \<Rightarrow> 'x Bucket \<Rightarrow> 'j base \<Rightarrow> ('p, 'x) RetryLoop \<Rightarrow> Time
   \<Rightarrow> options \<Rightarrow> ('p, 'x) world \<Rightarrow> (error option \<times> ('p, 'x) world) go" where
  "Start P bk bs retryLoop now options w =
     (let (err, w1) = markStart bk bs w in
      case err of
        Some e \<Rightarrow> Returns (err, w1)
      | None \<Rightarrow>
          (let ((processClusterStatus, err1), w2) =
                 (case clusterAwareOptions (mgr w1) of
                    None \<Rightarrow> ((None, None), w1)
                  | Some opts \<Rightarrow>
                      (let ((st, _, e1), x2) = GetRaw bk (StatusDocID bs opts) (ext w1)
                       in ((st, e1), w1\<lparr>ext := x2\<rparr>)))
           in case (if IsDocNotFoundError err1 then None else err1) of
                Some e \<Rightarrow>
                  Returns (Some (WrappedError e ''Failed to get current process status''), w2)
              | None \<Rightarrow>
                  (let w3 = resetStatus P w2;
                       w4 = w3\<lparr>mgr := (mgr w3)\<lparr>StartTime := now\<rparr>\<rparr>
                   in case Init P options processClusterStatus w4 of
                        Panics m \<Rightarrow> Panics m
                      | Returns (err2, w5) \<Rightarrow>
                          (case err2 of
                             Some e \<Rightarrow> Returns (err2, w5)
                           | None \<Rightarrow>
                               (let w6 = (if isClusterAware (mgr w5)
                                          then go_spawn StatusUpdateLoop w5 else w5);
                                    w7 = go_spawn (RunTask options) w6;
                                    w8 = (if isClusterAware (mgr w7)
                                          then snd (UpdateStatusClusterAware P bk bs retryLoop w7)
                                          else w7)
                                in Returns (None, w8))))))"

text \<open>The second goroutine of \<^verbatim>\<open>Start\<close> (lines 136 to 168). \<open>afterRun\<close> is what it does between the return of
  \<^verbatim>\<open>Process.Run\<close> and the release of the lock.\<close>

definition afterRun :: "error option \<Rightarrow> ('p, 'x) world \<Rightarrow> ('p, 'x) world" where
  "afterRun err w =
     (let w1 = (case err of Some e \<Rightarrow> SetError err w | None \<Rightarrow> w);
          w2 = Terminate w1
      in if State (mgr w2) = BackgroundProcessStateStopping
         then w2\<lparr>mgr := (mgr w2)\<lparr>State := BackgroundProcessStateStopped\<rparr>\<rparr>
         else if State (mgr w2) \<noteq> BackgroundProcessStateError
         then w2\<lparr>mgr := (mgr w2)\<lparr>State := BackgroundProcessStateCompleted\<rparr>\<rparr>
         else w2)"

definition runTask ::
  "('p, 'x) BackgroundManagerProcessI \<Rightarrow> 'x Bucket \<Rightarrow> 'j base \<Rightarrow> ('p, 'x) RetryLoop
   \<Rightarrow> options \<Rightarrow> ('p, 'x) world \<Rightarrow> (('p, 'x) world) go" where
  "runTask P bk bs retryLoop options w =
     (case Run P options (UpdateStatusClusterAware P bk bs retryLoop) (terminator (mgr w)) w of
        Panics m \<Rightarrow> Panics m
      | Returns (err, w1) \<Rightarrow>
          (let w2 = afterRun err w1 in
           case clusterAwareOptions (mgr w2) of
             None \<Rightarrow> Returns w2
           | Some opts \<Rightarrow>
               (let (_, w3) = UpdateStatusClusterAware P bk bs retryLoop w2;
                    (_, x4) = Delete bk (HeartbeatDocID bs opts) (ext w3)
                in Returns (w3\<lparr>ext := x4\<rparr>))))"

section \<open>Attachment compaction\<close>

record AttachmentManagerResponse = BackgroundManagerStatus +
  MarkedAttachments :: int
  PurgedAttachments :: int
  CompactID :: string
  Phase :: string
  DryRun :: bool

record AttachmentCompactionManager =
  MarkedAttachments :: int
  PurgedAttachments :: int
  CompactID :: string
  Phase :: string
  dryRun :: bool

type_synonym 'x acworld = "(AttachmentCompactionManager, 'x) world"

text \<open>What the process uses and the sources do not hold: the JSON codec at the response
  type, the start-time statistic of the database, and the three phases \<^verbatim>\<open>Mark\<close>,
  \<^verbatim>\<open>Sweep\<close> and \<^verbatim>\<open>Cleanup\<close>. A phase takes the compact ID (\<^verbatim>\<open>Sweep\<close> also the dry-run
  flag) and the terminator; it may update the counters and runs while other tasks run,
  so it is a function on the whole state. Its count result is dropped by the caller
  and left out.\<close>

record 'x compaction =
  JSONUnmarshalAttachment :: "string \<Rightarrow> AttachmentManagerResponse \<times> error option"
  JSONMarshalAttachment :: "AttachmentManagerResponse \<Rightarrow> string option \<times> error option"
  SetCompactionAttachmentStartTime :: "int \<Rightarrow> 'x \<Rightarrow> 'x"
  Mark :: "string \<Rightarrow> nat \<Rightarrow> 'x acworld \<Rightarrow> error option \<times> 'x acworld"
  Sweep :: "string \<Rightarrow> bool \<Rightarrow> nat \<Rightarrow> 'x acworld \<Rightarrow> error option \<times> 'x acworld"
  Cleanup :: "string \<Rightarrow> nat \<Rightarrow> 'x acworld \<Rightarrow> error option \<times> 'x acworld"

text \<open>\<^verbatim>\<open>AttachmentCompactionManager.Init\<close> (lines 621 to 673), its closure \<^verbatim>\<open>newRunInit\<close> first.
  \<open>uuid\<close> is what \<^verbatim>\<open>uuid.NewRandom()\<close> returns when it is called, as a string; \<open>now\<close> is the
  clock.\<close>

definition newRunInit ::
  "options \<Rightarrow> error + string \<Rightarrow> AttachmentCompactionManager
   \<Rightarrow> error option \<times> AttachmentCompactionManager" where
  "newRunInit options uuid a =
     (case uuid of
        Inl err \<Rightarrow> (Some err, a)
      | Inr uniqueUUID \<Rightarrow>
          (let dryRun1 = (case options ''dryRun'' of Some (VBool d) \<Rightarrow> d | _ \<Rightarrow> False)
           in (None, a\<lparr>dryRun := dryRun1, CompactID := uniqueUUID\<rparr>)))"

definition AttachmentCompactionManager_Init ::
  "'x compaction \<Rightarrow> Time \<Rightarrow> error + string \<Rightarrow> options \<Rightarrow> string option \<Rightarrow> 'x acworld
   \<Rightarrow> (error option \<times> 'x acworld) go" where
  "AttachmentCompactionManager_Init D now uuid options clusterStatus w =
     (case options ''database'' of
        Some VDatabase \<Rightarrow>
          (let w1 = w\<lparr>ext := SetCompactionAttachmentStartTime D (Time_Unix now) (ext w)\<rparr>;
               a = Process (mgr w1);
               (err, a') =
                 (case clusterStatus of
                    Some status \<Rightarrow>
                      (let (attachmentResponseStatus, err1) = JSONUnmarshalAttachment D status;
                           (reset, ok) = (case options ''reset'' of
                                            Some (VBool r) \<Rightarrow> (r, True)
                                          | _ \<Rightarrow> (False, False))
                       in if State attachmentResponseStatus = BackgroundProcessStateCompleted
                             \<or> err1 \<noteq> None \<or> (reset \<and> ok)
                          then newRunInit options uuid a
                          else
                            (None,
                             a\<lparr>CompactID := AttachmentManagerResponse.CompactID attachmentResponseStatus,
                               Phase := AttachmentManagerResponse.Phase attachmentResponseStatus,
                               dryRun := DryRun attachmentResponseStatus,
                               MarkedAttachments :=
                                 AttachmentManagerResponse.MarkedAttachments attachmentResponseStatus,
                               PurgedAttachments :=
                                 AttachmentManagerResponse.PurgedAttachments attachmentResponseStatus\<rparr>))
                  | None \<Rightarrow> newRunInit options uuid a)
           in Returns (err, w1\<lparr>mgr := (mgr w1)\<lparr>Process := a'\<rparr>\<rparr>))
      | _ \<Rightarrow> Panics ''interface conversion: interface {} is not *db.Database'')"

definition SetPhase :: "string \<Rightarrow> 'x acworld \<Rightarrow> 'x acworld" where
  "SetPhase phase w = w\<lparr>mgr := (mgr w)\<lparr>Process := (Process (mgr w))\<lparr>Phase := phase\<rparr>\<rparr>\<rparr>"

text \<open>\<^verbatim>\<open>AttachmentCompactionManager.Run\<close> (lines 675 to 717). \<open>Run\<close> also returns the calls it made, in order: \<open>SetPhaseCall p\<close> for
  \<^verbatim>\<open>a.SetPhase(p)\<close>; \<open>PersistCall p\<close> for \<^verbatim>\<open>persistClusterStatus()\<close>, with the value of the
  phase field at that moment; \<open>WorkCall p err c\<close> for the call of the phase function of
  \<open>p\<close>, with the error it returned and what \<^verbatim>\<open>terminator.IsClosed()\<close> said right after.\<close>

datatype call =
    SetPhaseCall string
  | PersistCall string
  | WorkCall string "error option" bool

type_synonym 'x runstate = "'x acworld \<times> call list"

definition setPhase_logged :: "string \<Rightarrow> 'x runstate \<Rightarrow> 'x runstate" where
  "setPhase_logged phase s = (SetPhase phase (fst s), snd s @ [SetPhaseCall phase])"

text \<open>An error of the callback is logged as a warning and dropped.\<close>

definition persistClusterStatus ::
  "('x acworld \<Rightarrow> error option \<times> 'x acworld) \<Rightarrow> 'x runstate \<Rightarrow> 'x runstate" where
  "persistClusterStatus persistClusterStatusCallback s =
     (let (err, w1) = persistClusterStatusCallback (fst s)
      in (w1, snd s @ [PersistCall (Phase (Process (mgr (fst s))))]))"

definition work_logged ::
  "string \<Rightarrow> ('x acworld \<Rightarrow> error option \<times> 'x acworld) \<Rightarrow> nat \<Rightarrow> 'x runstate
   \<Rightarrow> error option \<times> 'x runstate" where
  "work_logged phase f t s =
     (let (err, w1) = f (fst s)
      in (err, (w1, snd s @ [WorkCall phase err (IsClosed t w1)])))"

text \<open>The statements after the \<^verbatim>\<open>switch\<close>, and its cases from the last to the first: a
  case that does not return falls through to the next.\<close>

definition afterSwitch :: "'x runstate \<Rightarrow> error option \<times> 'x runstate" where
  "afterSwitch s = (None, setPhase_logged [] s)"

definition caseCleanup ::
  "'x compaction \<Rightarrow> ('x acworld \<Rightarrow> error option \<times> 'x acworld) \<Rightarrow> nat \<Rightarrow> 'x runstate
   \<Rightarrow> error option \<times> 'x runstate" where
  "caseCleanup D cb t s =
     (let s1 = persistClusterStatus cb (setPhase_logged ''cleanup'' s);
          (err, s2) = work_logged ''cleanup''
                        (Cleanup D (CompactID (Process (mgr (fst s1)))) t) t s1
      in if err \<noteq> None \<or> IsClosed t (fst s2) then (err, s2) else afterSwitch s2)"

definition caseSweep ::
  "'x compaction \<Rightarrow> ('x acworld \<Rightarrow> error option \<times> 'x acworld) \<Rightarrow> nat \<Rightarrow> 'x runstate
   \<Rightarrow> error option \<times> 'x runstate" where
  "caseSweep D cb t s =
     (let s1 = persistClusterStatus cb (setPhase_logged ''sweep'' s);
          (err, s2) = work_logged ''sweep''
                        (Sweep D (CompactID (Process (mgr (fst s1))))
                           (dryRun (Process (mgr (fst s1)))) t) t s1
      in if err \<noteq> None \<or> IsClosed t (fst s2) then (err, s2) else caseCleanup D cb t s2)"

definition caseMark ::
  "'x compaction \<Rightarrow> ('x acworld \<Rightarrow> error option \<times> 'x acworld) \<Rightarrow> nat \<Rightarrow> 'x runstate
   \<Rightarrow> error option \<times> 'x runstate" where
  "caseMark D cb t s =
     (let s1 = persistClusterStatus cb (setPhase_logged ''mark'' s);
          (err, s2) = work_logged ''mark''
                        (Mark D (CompactID (Process (mgr (fst s1)))) t) t s1
      in if err \<noteq> None \<or> IsClosed t (fst s2) then (err, s2) else caseSweep D cb t s2)"

text \<open>The deferred \<^verbatim>\<open>persistClusterStatus()\<close> runs at every return after the \<^verbatim>\<open>defer\<close>.\<close>

definition AttachmentCompactionManager_Run_calls ::
  "'x compaction \<Rightarrow> options \<Rightarrow> ('x acworld \<Rightarrow> error option \<times> 'x acworld) \<Rightarrow> nat \<Rightarrow> 'x acworld
   \<Rightarrow> (error option \<times> 'x acworld \<times> call list) go" where
  "AttachmentCompactionManager_Run_calls D options persistClusterStatusCallback t w =
     (case options ''database'' of
        Some VDatabase \<Rightarrow>
          (let phase = Phase (Process (mgr w));
               (err, s1) =
                 (if phase = ''mark'' \<or> phase = [] then caseMark D persistClusterStatusCallback t (w, [])
                  else if phase = ''sweep'' then caseSweep D persistClusterStatusCallback t (w, [])
                  else if phase = ''cleanup'' then caseCleanup D persistClusterStatusCallback t (w, [])
                  else afterSwitch (w, []))
           in Returns (err, persistClusterStatus persistClusterStatusCallback s1))
      | _ \<Rightarrow> Panics ''interface conversion: interface {} is not *db.Database'')"

definition AttachmentCompactionManager_Run ::
  "'x compaction \<Rightarrow> options \<Rightarrow> ('x acworld \<Rightarrow> error option \<times> 'x acworld) \<Rightarrow> nat \<Rightarrow> 'x acworld
   \<Rightarrow> (error option \<times> 'x acworld) go" where
  "AttachmentCompactionManager_Run D options persistClusterStatusCallback t w =
     (case AttachmentCompactionManager_Run_calls D options persistClusterStatusCallback t w of
        Panics m \<Rightarrow> Panics m
      | Returns (err, w1, calls) \<Rightarrow> Returns (err, w1))"

definition AttachmentCompactionManager_GetProcessStatus ::
  "'x compaction \<Rightarrow> BackgroundManagerStatus \<Rightarrow> AttachmentCompactionManager
   \<Rightarrow> (string option \<times> error option) \<times> AttachmentCompactionManager" where
  "AttachmentCompactionManager_GetProcessStatus D status a =
     (let retStatus =
            BackgroundManagerStatus.extend status
              (AttachmentManagerResponse.fields (MarkedAttachments a) (PurgedAttachments a)
                 (CompactID a) (Phase a) (dryRun a))
      in (JSONMarshalAttachment D retStatus, a))"

definition AttachmentCompactionManager_ResetStatus ::
  "AttachmentCompactionManager \<Rightarrow> AttachmentCompactionManager" where
  "AttachmentCompactionManager_ResetStatus a =
     a\<lparr>MarkedAttachments := 0, PurgedAttachments := 0, dryRun := False\<rparr>"

text \<open>The process as the manager of \<^verbatim>\<open>NewAttachmentCompactionManager\<close> holds it. \<open>now\<close> and
  \<open>uuid\<close> are the clock and the UUID that \<open>Init\<close> reads.\<close>

definition AttachmentCompactionProcess ::
  "'x compaction \<Rightarrow> Time \<Rightarrow> error + string
   \<Rightarrow> (AttachmentCompactionManager, 'x) BackgroundManagerProcessI" where
  "AttachmentCompactionProcess D now uuid =
     \<lparr>Init = AttachmentCompactionManager_Init D now uuid,
      Run = AttachmentCompactionManager_Run D,
      GetProcessStatus = AttachmentCompactionManager_GetProcessStatus D,
      ResetStatus = AttachmentCompactionManager_ResetStatus\<rparr>"

section \<open>Constructors and concrete collaborators\<close>

text \<open>The zero \<^verbatim>\<open>time.Time\<close> is January 1 of year 1, UTC.\<close>

definition zeroTime :: Time where
  "zeroTime = Unix (- 62135596800) 0"

record ResyncManager =
  DocsProcessed :: int
  DocsChanged :: int

text \<open>\<^verbatim>\<open>NewResyncManager\<close> and \<^verbatim>\<open>NewAttachmentCompactionManager\<close>, in a state where no
  terminator exists yet: the manager's own terminator gets address 0.\<close>

definition NewResyncManager :: "'x \<Rightarrow> (ResyncManager, 'x) world" where
  "NewResyncManager x =
     \<lparr>mgr = \<lparr>State = [], StartTime = zeroTime, LastErrorMessage = [],
              lastError = None, terminator = 0, clusterAwareOptions = None,
              Process = \<lparr>DocsProcessed = 0, DocsChanged = 0\<rparr>\<rparr>,
      ext = x, closed = (\<lambda>t. False), nextTerminator = 1, spawned = []\<rparr>"

definition NewAttachmentCompactionManager :: "'x \<Rightarrow> 'x acworld" where
  "NewAttachmentCompactionManager x =
     \<lparr>mgr = \<lparr>State = [], StartTime = zeroTime, LastErrorMessage = [],
              lastError = None, terminator = 0,
              clusterAwareOptions = Some \<lparr>processSuffix = ''compact'', lastSuccessfulHeartbeatUnix = 0\<rparr>,
              Process = \<lparr>MarkedAttachments = 0, PurgedAttachments = 0, CompactID = [],
                         Phase = [], dryRun = False\<rparr>\<rparr>,
      ext = x, closed = (\<lambda>t. False), nextTerminator = 1, spawned = []\<rparr>"

text \<open>An external state to run the definitions on: the documents of a bucket in memory,
  each with its CAS, and the start-time statistic of the database. The bucket ignores
  expiry; it stores a heartbeat document as \<open>''stop''\<close> when \<open>ShouldStop\<close> is set and as
  \<open>''{}''\<close> otherwise.\<close>

record extstate =
  docs :: "string \<rightharpoonup> string option \<times> nat"
  compactionAttachmentStartTime :: int

definition emptyExt :: extstate where
  "emptyExt = \<lparr>docs = Map.empty, compactionAttachmentStartTime = 0\<rparr>"

definition memGet :: "string \<Rightarrow> extstate \<Rightarrow> (string option \<times> nat \<times> error option) \<times> extstate" where
  "memGet k x =
     (case docs x k of
        None \<Rightarrow> ((None, 0, Some DocNotFoundError), x)
      | Some (v, c) \<Rightarrow> ((v, c, None), x))"

definition memPut :: "string \<Rightarrow> string option \<Rightarrow> extstate \<Rightarrow> extstate" where
  "memPut k v x =
     x\<lparr>docs := (docs x)(k \<mapsto> (v, case docs x k of None \<Rightarrow> 1 | Some (u, c) \<Rightarrow> Suc c))\<rparr>"

definition memBucket :: "extstate Bucket" where
  "memBucket =
     \<lparr>GetRaw = memGet,
      WriteCas = (\<lambda>k flags exp cas v x.
        case docs x k of
          None \<Rightarrow> if cas = 0 then ((1, None), memPut k v x)
                  else ((0, Some DocNotFoundError), x)
        | Some (u, c) \<Rightarrow> if cas = c then ((Suc c, None), memPut k v x)
                         else ((0, Some CasMismatchError), x)),
      SetRaw = (\<lambda>k exp v x. (None, memPut k v x)),
      SetDoc = (\<lambda>k exp d x. (None, memPut k (Some (if ShouldStop d then ''stop'' else ''{}'')) x)),
      Delete = (\<lambda>k x.
        case docs x k of
          None \<Rightarrow> (Some DocNotFoundError, x)
        | Some d \<Rightarrow> (None, x\<lparr>docs := (docs x)(k := None)\<rparr>)),
      GetAndTouchRaw = (\<lambda>k exp x. memGet k x)\<rparr>"

text \<open>A bucket whose every operation fails with a timeout.\<close>

definition timeoutError :: error where
  "timeoutError = OtherError ''operation timed out''"

definition timeoutBucket :: "extstate Bucket" where
  "timeoutBucket =
     \<lparr>GetRaw = (\<lambda>k x. ((None, 0, Some timeoutError), x)),
      WriteCas = (\<lambda>k flags exp cas v x. ((0, Some timeoutError), x)),
      SetRaw = (\<lambda>k exp v x. (Some timeoutError, x)),
      SetDoc = (\<lambda>k exp d x. (Some timeoutError, x)),
      Delete = (\<lambda>k x. (Some timeoutError, x)),
      GetAndTouchRaw = (\<lambda>k exp x. ((None, 0, Some timeoutError), x))\<rparr>"

text \<open>The bucket in memory, but every \<open>WriteCas\<close> times out.\<close>

definition readOnlyBucket :: "extstate Bucket" where
  "readOnlyBucket = memBucket\<lparr>WriteCas := WriteCas timeoutBucket\<rparr>"

text \<open>A codec for documents that hold the status field alone, as its text, and for the
  heartbeat documents of the bucket above.\<close>

definition testBase :: "unit base" where
  "testBase =
     \<lparr>SyncPrefix = ''_sync'',
      ErrorString = (\<lambda>e. case e of
          HTTPError n m \<Rightarrow> m
        | DocNotFoundError \<Rightarrow> ''key not found''
        | CasMismatchError \<Rightarrow> ''cas mismatch''
        | OtherError m \<Rightarrow> m
        | WrappedError e1 m \<Rightarrow> m),
      JSONUnmarshalMap = (\<lambda>s.
        if s = [] then (Map.empty, Some (OtherError ''unexpected end of JSON input''))
        else ([''status'' \<mapsto> JString s], None)),
      JSONMarshalMap = (\<lambda>m.
        case m ''status'' of
          Some (JString s) \<Rightarrow> (Some s, None)
        | _ \<Rightarrow> (None, Some (OtherError ''unsupported value''))),
      JSONUnmarshalHeartbeat = (\<lambda>s.
        if s = ''{}'' then (\<lparr>ShouldStop = False\<rparr>, None)
        else if s = ''stop'' then (\<lparr>ShouldStop = True\<rparr>, None)
        else (\<lparr>ShouldStop = False\<rparr>, Some (OtherError ''invalid character'')))\<rparr>"

text \<open>A retry loop that runs its worker once.\<close>

definition retryOnce :: "('p, 'x) RetryLoop" where
  "retryOnce worker w = (let ((shouldRetry, err), w1) = worker w in (err, w1))"

text \<open>The status document of a run that stopped in its sweep phase, and of a completed
  run; the codec below knows these two documents by name.\<close>

definition sweepingStatus :: AttachmentManagerResponse where
  "sweepingStatus =
     \<lparr>State = BackgroundProcessStateStopped, StartTime = 0, LastErrorMessage = [],
      AttachmentManagerResponse.MarkedAttachments = 500,
      AttachmentManagerResponse.PurgedAttachments = 120,
      AttachmentManagerResponse.CompactID = ''run-1'',
      AttachmentManagerResponse.Phase = ''sweep'', DryRun = True\<rparr>"

definition completedStatus :: AttachmentManagerResponse where
  "completedStatus =
     \<lparr>State = BackgroundProcessStateCompleted, StartTime = 0, LastErrorMessage = [],
      AttachmentManagerResponse.MarkedAttachments = 500,
      AttachmentManagerResponse.PurgedAttachments = 200,
      AttachmentManagerResponse.CompactID = ''run-0'',
      AttachmentManagerResponse.Phase = [], DryRun = False\<rparr>"

definition zeroStatus :: AttachmentManagerResponse where
  "zeroStatus =
     \<lparr>State = [], StartTime = zeroTime, LastErrorMessage = [],
      AttachmentManagerResponse.MarkedAttachments = 0,
      AttachmentManagerResponse.PurgedAttachments = 0,
      AttachmentManagerResponse.CompactID = [],
      AttachmentManagerResponse.Phase = [], DryRun = False\<rparr>"

text \<open>Phases for the runs below: \<open>Mark\<close> counts three attachments, \<open>Sweep\<close> purges two
  unless the run is dry, \<open>Cleanup\<close> leaves a document named after the run in the bucket.\<close>

definition testCompaction :: "extstate compaction" where
  "testCompaction =
     \<lparr>JSONUnmarshalAttachment = (\<lambda>s.
        if s = ''sweeping'' then (sweepingStatus, None)
        else if s = ''done'' then (completedStatus, None)
        else (zeroStatus, Some (OtherError ''invalid character''))),
      JSONMarshalAttachment = (\<lambda>r. (Some (State r), None)),
      SetCompactionAttachmentStartTime = (\<lambda>t x. x\<lparr>compactionAttachmentStartTime := t\<rparr>),
      Mark = (\<lambda>compactID t w.
        (None, w\<lparr>mgr := (mgr w)\<lparr>Process := (Process (mgr w))\<lparr>MarkedAttachments :=
                  MarkedAttachments (Process (mgr w)) + 3\<rparr>\<rparr>\<rparr>)),
      Sweep = (\<lambda>compactID dry t w.
        (None, w\<lparr>mgr := (mgr w)\<lparr>Process := (Process (mgr w))\<lparr>PurgedAttachments :=
                  PurgedAttachments (Process (mgr w)) + (if dry then 0 else 2)\<rparr>\<rparr>\<rparr>)),
      Cleanup = (\<lambda>compactID t w.
        (None, w\<lparr>ext := memPut (''cleaned:'' @ compactID) (Some ''{}'') (ext w)\<rparr>))\<rparr>"

text \<open>A bucket whose status document says \<open>running\<close> and that holds no heartbeat
  document: what a runner that died leaves behind once its heartbeat expired.\<close>

definition crashedExt :: extstate where
  "crashedExt =
     \<lparr>docs = [''_sync:background_process:status:compact'' \<mapsto> (Some ''running'', 7)],
      compactionAttachmentStartTime = 0\<rparr>"

text \<open>A running cluster-aware manager whose last successful heartbeat was at second
  \<open>sec\<close>.\<close>

definition heartbeatAt :: "int \<Rightarrow> extstate acworld" where
  "heartbeatAt sec =
     (NewAttachmentCompactionManager emptyExt)
       \<lparr>mgr := (mgr (NewAttachmentCompactionManager emptyExt))
          \<lparr>State := BackgroundProcessStateRunning,
           clusterAwareOptions := Some \<lparr>processSuffix = ''compact'',
                                        lastSuccessfulHeartbeatUnix = sec\<rparr>\<rparr>\<rparr>"

text \<open>A process whose \<open>Run\<close> returns \<open>err\<close> at once.\<close>

definition stubProcess :: "error option \<Rightarrow> (ResyncManager, extstate) BackgroundManagerProcessI" where
  "stubProcess err =
     \<lparr>Init = (\<lambda>options clusterStatus w. Returns (None, w)),
      Run = (\<lambda>options cb t w. Returns (err, w)),
      GetProcessStatus = (\<lambda>status p. ((Some (State status), None), p)),
      ResetStatus = (\<lambda>p. p\<lparr>DocsProcessed := 0, DocsChanged := 0\<rparr>)\<rparr>"

text \<open>Options of a first start and of a start with \<^verbatim>\<open>reset\<close>, and phases in which an
  administrator calls \<^verbatim>\<open>Stop\<close> on this node while \<^verbatim>\<open>Sweep\<close> runs.\<close>

definition plainOptions :: options where
  "plainOptions = [''database'' \<mapsto> VDatabase]"

definition resetOptions :: options where
  "resetOptions = [''database'' \<mapsto> VDatabase, ''reset'' \<mapsto> VBool True]"

definition stopDuringSweep :: "extstate compaction" where
  "stopDuringSweep =
     testCompaction\<lparr>Sweep := (\<lambda>compactID dry t w. (None, snd (Stop memBucket testBase w)))\<rparr>"

text \<open>Phases whose \<open>Mark\<close> fails with a timeout.\<close>

definition failingMark :: "extstate compaction" where
  "failingMark = testCompaction\<lparr>Mark := (\<lambda>compactID t w. (Some timeoutError, w))\<rparr>"

text \<open>The status callback of a cluster-aware attachment compaction manager on the bucket
  in memory: what \<^verbatim>\<open>Start\<close> hands to \<^verbatim>\<open>Run\<close>.\<close>

definition publishStatus :: "extstate acworld \<Rightarrow> error option \<times> extstate acworld" where
  "publishStatus =
     UpdateStatusClusterAware (AttachmentCompactionProcess testCompaction 0 (Inr ''run-1''))
       memBucket testBase retryOnce"

text \<open>The state a node is in after a first run, started at second 100 with compact ID
  \<open>run-1\<close>, was stopped during its sweep phase: the phase field still says \<open>sweep\<close>.\<close>

definition stoppedInSweep :: "extstate acworld" where
  "stoppedInSweep =
     \<lparr>mgr = \<lparr>State = BackgroundProcessStateStopped, StartTime = Unix 100 0,
              LastErrorMessage = [], lastError = None, terminator = 1,
              clusterAwareOptions = Some \<lparr>processSuffix = ''compact'', lastSuccessfulHeartbeatUnix = 0\<rparr>,
              Process = \<lparr>MarkedAttachments = 3, PurgedAttachments = 0, CompactID = ''run-1'',
                         Phase = ''sweep'', dryRun = False\<rparr>\<rparr>,
      ext = \<lparr>docs = [''_sync:background_process:status:compact''
                        \<mapsto> (Some BackgroundProcessStateStopped, 5)],
             compactionAttachmentStartTime = 100\<rparr>,
      closed = (\<lambda>t. t = 1), nextTerminator = 2,
      spawned = [HeartbeatLoop, StatusUpdateLoop, RunTask plainOptions]\<rparr>"

section \<open>The phase ladder, as the specification words it\<close>

text \<open>The phases a run goes through, from the phase it starts with.\<close>

definition ladder :: "string \<Rightarrow> string list" where
  "ladder phase =
     (if phase = ''mark'' \<or> phase = [] then [''mark'', ''sweep'', ''cleanup'']
      else if phase = ''sweep'' then [''sweep'', ''cleanup'']
      else if phase = ''cleanup'' then [''cleanup'']
      else [])"

text \<open>The work of a phase: \<^verbatim>\<open>Mark\<close>, \<^verbatim>\<open>Sweep\<close> or \<^verbatim>\<open>Cleanup\<close> on the compact ID (and, for
  \<^verbatim>\<open>Sweep\<close>, the dry-run flag) that the process holds when the work starts.\<close>

definition phaseWork ::
  "'x compaction \<Rightarrow> string \<Rightarrow> nat \<Rightarrow> 'x acworld \<Rightarrow> error option \<times> 'x acworld" where
  "phaseWork D p t w =
     (if p = ''mark'' then Mark D (CompactID (Process (mgr w))) t w
      else if p = ''sweep''
      then Sweep D (CompactID (Process (mgr w))) (dryRun (Process (mgr w))) t w
      else Cleanup D (CompactID (Process (mgr w))) t w)"

text \<open>\<open>ladder_run D cb t ps w calls err w'\<close>: a run through the phases \<open>ps\<close> from the state
  \<open>w\<close>, with the phase functions of \<open>D\<close>, the status callback \<open>cb\<close> and the terminator
  \<open>t\<close>, makes the calls \<open>calls\<close>, returns \<open>err\<close> and ends in the state \<open>w'\<close>. Each phase sets
  the phase field, persists the status of that state through the callback, and does its
  work on the state the callback left. A phase whose work returns an error or leaves the
  terminator closed is the last: its error is returned and only the final persist
  follows, on the state the work left. Otherwise the next phase starts from the state
  the work left. After the last phase the phase field is emptied, the status persisted
  and nil returned.\<close>

inductive ladder_run ::
  "'x compaction \<Rightarrow> ('x acworld \<Rightarrow> error option \<times> 'x acworld) \<Rightarrow> nat \<Rightarrow> string list
   \<Rightarrow> 'x acworld \<Rightarrow> call list \<Rightarrow> error option \<Rightarrow> 'x acworld \<Rightarrow> bool"
  for D :: "'x compaction" and cb :: "'x acworld \<Rightarrow> error option \<times> 'x acworld" and t :: nat where
  completed: "ladder_run D cb t [] w [SetPhaseCall [], PersistCall []] None (snd (cb (SetPhase [] w)))"
| returned: "phaseWork D p t (snd (cb (SetPhase p w))) = (err, w2) \<Longrightarrow>
     err \<noteq> None \<or> IsClosed t w2 \<Longrightarrow>
     ladder_run D cb t (p # ps) w
       [SetPhaseCall p, PersistCall p, WorkCall p err (IsClosed t w2),
        PersistCall (Phase (Process (mgr w2)))]
       err (snd (cb w2))"
| continued: "phaseWork D p t (snd (cb (SetPhase p w))) = (None, w2) \<Longrightarrow>
     \<not> IsClosed t w2 \<Longrightarrow>
     ladder_run D cb t ps w2 calls err w' \<Longrightarrow>
     ladder_run D cb t (p # ps) w
       (SetPhaseCall p # PersistCall p # WorkCall p None False # calls) err w'"

section \<open>Evaluation rules for the concrete collaborators\<close>

lemma testBase_sel:
  "SyncPrefix testBase = ''_sync''"
  "JSONUnmarshalMap testBase s =
     (if s = [] then (Map.empty, Some (OtherError ''unexpected end of JSON input''))
      else ([''status'' \<mapsto> JString s], None))"
  "JSONMarshalMap testBase m =
     (case m ''status'' of
          Some (JString s) \<Rightarrow> (Some s, None)
        | _ \<Rightarrow> (None, Some (OtherError ''unsupported value'')))"
  "JSONUnmarshalHeartbeat testBase s =
     (if s = ''{}'' then (\<lparr>ShouldStop = False\<rparr>, None)
        else if s = ''stop'' then (\<lparr>ShouldStop = True\<rparr>, None)
        else (\<lparr>ShouldStop = False\<rparr>, Some (OtherError ''invalid character'')))"
  by (simp_all add: testBase_def)

lemma memBucket_sel:
  "GetRaw memBucket = memGet"
  "GetAndTouchRaw memBucket = (\<lambda>k exp x. memGet k x)"
  "SetRaw memBucket = (\<lambda>k exp v x. (None, memPut k v x))"
  "SetDoc memBucket = (\<lambda>k exp d x. (None, memPut k (Some (if ShouldStop d then ''stop'' else ''{}'')) x))"
  "WriteCas memBucket = (\<lambda>k flags exp cas v x.
        case docs x k of
          None \<Rightarrow> if cas = 0 then ((1, None), memPut k v x)
                  else ((0, Some DocNotFoundError), x)
        | Some (u, c) \<Rightarrow> if cas = c then ((Suc c, None), memPut k v x)
                         else ((0, Some CasMismatchError), x))"
  "Delete memBucket = (\<lambda>k x.
        case docs x k of
          None \<Rightarrow> (Some DocNotFoundError, x)
        | Some d \<Rightarrow> (None, x\<lparr>docs := (docs x)(k := None)\<rparr>))"
  by (simp_all add: memBucket_def)

lemma timeoutBucket_sel:
  "GetRaw timeoutBucket = (\<lambda>k x. ((None, 0, Some timeoutError), x))"
  "WriteCas timeoutBucket = (\<lambda>k flags exp cas v x. ((0, Some timeoutError), x))"
  "GetAndTouchRaw timeoutBucket = (\<lambda>k exp x. ((None, 0, Some timeoutError), x))"
  by (simp_all add: timeoutBucket_def)

lemma readOnlyBucket_sel:
  "GetRaw readOnlyBucket = memGet"
  "WriteCas readOnlyBucket = (\<lambda>k flags exp cas v x. ((0, Some timeoutError), x))"
  by (simp_all add: readOnlyBucket_def memBucket_def timeoutBucket_def)

lemma testCompaction_sel:
  "JSONUnmarshalAttachment testCompaction s =
     (if s = ''sweeping'' then (sweepingStatus, None)
        else if s = ''done'' then (completedStatus, None)
        else (zeroStatus, Some (OtherError ''invalid character'')))"
  "JSONMarshalAttachment testCompaction r = (Some (State r), None)"
  "SetCompactionAttachmentStartTime testCompaction sec x = x\<lparr>compactionAttachmentStartTime := sec\<rparr>"
  "Mark testCompaction compactID t w =
        (None, w\<lparr>mgr := (mgr w)\<lparr>Process := (Process (mgr w))\<lparr>MarkedAttachments :=
                  MarkedAttachments (Process (mgr w)) + 3\<rparr>\<rparr>\<rparr>)"
  "Sweep testCompaction compactID dry t w =
        (None, w\<lparr>mgr := (mgr w)\<lparr>Process := (Process (mgr w))\<lparr>PurgedAttachments :=
                  PurgedAttachments (Process (mgr w)) + (if dry then 0 else 2)\<rparr>\<rparr>\<rparr>)"
  "Cleanup testCompaction compactID t w =
        (None, w\<lparr>ext := memPut (''cleaned:'' @ compactID) (Some ''{}'') (ext w)\<rparr>)"
  by (simp_all add: testCompaction_def)

lemma stopDuringSweep_sel:
  "JSONUnmarshalAttachment stopDuringSweep = JSONUnmarshalAttachment testCompaction"
  "JSONMarshalAttachment stopDuringSweep = JSONMarshalAttachment testCompaction"
  "SetCompactionAttachmentStartTime stopDuringSweep = SetCompactionAttachmentStartTime testCompaction"
  "Mark stopDuringSweep = Mark testCompaction"
  "Sweep stopDuringSweep compactID dry t w = (None, snd (Stop memBucket testBase w))"
  "Cleanup stopDuringSweep = Cleanup testCompaction"
  by (simp_all add: stopDuringSweep_def)

lemma failingMark_sel:
  "Mark failingMark compactID t w = (Some timeoutError, w)"
  by (simp add: failingMark_def)

lemma AttachmentCompactionProcess_sel:
  "Init (AttachmentCompactionProcess D now uuid) = AttachmentCompactionManager_Init D now uuid"
  "Run (AttachmentCompactionProcess D now uuid) = AttachmentCompactionManager_Run D"
  "GetProcessStatus (AttachmentCompactionProcess D now uuid) = AttachmentCompactionManager_GetProcessStatus D"
  "ResetStatus (AttachmentCompactionProcess D now uuid) = AttachmentCompactionManager_ResetStatus"
  by (simp_all add: AttachmentCompactionProcess_def)

lemma stubProcess_sel:
  "Run (stubProcess err) options cb t w = Returns (err, w)"
  "GetProcessStatus (stubProcess err) status p = ((Some (State status), None), p)"
  by (simp_all add: stubProcess_def)

lemmas eval_defs =
  Start_def markStart_def markStop_def Stop_def Terminate_def Close_def IsClosed_def
  SetError_def afterRun_def runTask_def
  memBucket_sel testBase_sel
  testCompaction_sel AttachmentCompactionProcess_sel HeartbeatDocID_def StatusDocID_def
  BackgroundManagerHeartbeatExpirySecs_def IsCasMismatch_def IsDocNotFoundError_def
  NewSafeTerminator_def go_spawn_def memGet_def memPut_def resetStatus_def
  AttachmentCompactionManager_ResetStatus_def AttachmentCompactionManager_Init_def
  newRunInit_def isClusterAware_def UpdateStatusClusterAware_def
  retryOnce_def getStatusLocal_def AttachmentCompactionManager_GetProcessStatus_def
  BackgroundManagerStatus.truncate_def BackgroundManagerStatus.extend_def
  AttachmentManagerResponse.fields_def Let_def bytes_def
  AttachmentCompactionManager_Run_def AttachmentCompactionManager_Run_calls_def
  caseMark_def caseSweep_def caseCleanup_def afterSwitch_def work_logged_def
  persistClusterStatus_def setPhase_logged_def SetPhase_def Time_Unix_def Unix_def
  wrap64_def unixToInternal_def

section \<open>The run task\<close>

lemma Terminate_mgr: "mgr (Terminate w) = mgr w"
  by (simp add: Terminate_def Close_def)

lemma Terminate_closed: "closed (Terminate w) = (closed w)(terminator (mgr w) := True)"
  by (simp add: Terminate_def Close_def)

lemma SetError_mgr:
  "mgr (SetError err w) = (mgr w)\<lparr>lastError := err, State := BackgroundProcessStateError\<rparr>"
  by (simp add: SetError_def Terminate_def Close_def)

lemma SetError_closed: "closed (SetError err w) = (closed w)(terminator (mgr w) := True)"
  by (simp add: SetError_def Terminate_def Close_def)

lemma afterRun_Some: "afterRun (Some e) w = Terminate (SetError (Some e) w)"
  by (simp add: afterRun_def Let_def Terminate_mgr SetError_mgr)

lemma afterRun_None:
  "afterRun None w =
     (if State (mgr w) = BackgroundProcessStateStopping
      then (Terminate w)\<lparr>mgr := (mgr w)\<lparr>State := BackgroundProcessStateStopped\<rparr>\<rparr>
      else if State (mgr w) \<noteq> BackgroundProcessStateError
      then (Terminate w)\<lparr>mgr := (mgr w)\<lparr>State := BackgroundProcessStateCompleted\<rparr>\<rparr>
      else Terminate w)"
  by (simp add: afterRun_def Let_def Terminate_mgr)

lemma afterRun_clusterAwareOptions:
  "clusterAwareOptions (mgr (afterRun err w)) = clusterAwareOptions (mgr w)"
  by (cases err) (simp_all add: afterRun_None afterRun_Some Terminate_mgr SetError_mgr)

lemma afterRun_transitions:
  "(\<forall>e. err = Some e \<longrightarrow>
      lastError (mgr (afterRun err w)) = Some e
      \<and> State (mgr (afterRun err w)) = BackgroundProcessStateError)
   \<and> IsClosed (terminator (mgr w)) (afterRun err w)
   \<and> (err = None \<and> State (mgr w) = BackgroundProcessStateStopping \<longrightarrow>
        State (mgr (afterRun err w)) = BackgroundProcessStateStopped)
   \<and> (err = None \<and> State (mgr w) \<noteq> BackgroundProcessStateStopping
        \<and> State (mgr w) \<noteq> BackgroundProcessStateError \<longrightarrow>
        State (mgr (afterRun err w)) = BackgroundProcessStateCompleted)
   \<and> (err = None \<and> State (mgr w) = BackgroundProcessStateError \<longrightarrow>
        State (mgr (afterRun err w)) = BackgroundProcessStateError)"
proof (cases err)
  case None
  then show ?thesis
    by (simp add: afterRun_None IsClosed_def Terminate_mgr Terminate_closed)
next
  case (Some e)
  then show ?thesis
    by (simp add: afterRun_Some IsClosed_def Terminate_mgr Terminate_closed SetError_mgr
        SetError_closed)
qed

lemma runTask_Returns:
  assumes "Run P options (UpdateStatusClusterAware P bk bs retryLoop) (terminator (mgr w)) w
             = Returns (err, w1)"
  shows "runTask P bk bs retryLoop options w
           = Returns
               (case clusterAwareOptions (mgr w1) of
                  None \<Rightarrow> afterRun err w1
                | Some opts \<Rightarrow>
                    (snd (UpdateStatusClusterAware P bk bs retryLoop (afterRun err w1)))
                      \<lparr>ext := snd (Delete bk (HeartbeatDocID bs opts)
                                    (ext (snd (UpdateStatusClusterAware P bk bs retryLoop
                                                 (afterRun err w1)))))\<rparr>)"
  using assms
  by (cases "clusterAwareOptions (mgr w1)")
     (simp_all add: runTask_def afterRun_clusterAwareOptions Let_def case_prod_beta)

text \<open>
  Claim C1. Whenever \<^verbatim>\<open>Process.Run\<close> returns in the run task that \<^verbatim>\<open>Start\<close> spawns, with
  error \<open>err\<close> and in state \<open>w1\<close>, the task goes on to the state \<open>afterRun err w1\<close> (and,
  with no cluster options, ends there; with them it publishes the status and deletes
  the heartbeat document). In that state: a non-nil error is recorded as \<open>lastError\<close>
  and the state is \<open>error\<close>; the terminator is closed, whatever \<^verbatim>\<open>Run\<close> returned; a state
  \<open>stopping\<close> has become \<open>stopped\<close>, any state other than \<open>stopping\<close> and \<open>error\<close> has become
  \<open>completed\<close>, and \<open>error\<close> stays.
\<close>

theorem runTask_after_Run:
  assumes "Run P options (UpdateStatusClusterAware P bk bs retryLoop) (terminator (mgr w)) w
             = Returns (err, w1)"
  shows "runTask P bk bs retryLoop options w
           = Returns
               (case clusterAwareOptions (mgr w1) of
                  None \<Rightarrow> afterRun err w1
                | Some opts \<Rightarrow>
                    (snd (UpdateStatusClusterAware P bk bs retryLoop (afterRun err w1)))
                      \<lparr>ext := snd (Delete bk (HeartbeatDocID bs opts)
                                    (ext (snd (UpdateStatusClusterAware P bk bs retryLoop
                                                 (afterRun err w1)))))\<rparr>)
     \<and> (\<forall>e. err = Some e \<longrightarrow>
           lastError (mgr (afterRun err w1)) = Some e
           \<and> State (mgr (afterRun err w1)) = BackgroundProcessStateError)
     \<and> IsClosed (terminator (mgr w1)) (afterRun err w1)
     \<and> (err = None \<and> State (mgr w1) = BackgroundProcessStateStopping \<longrightarrow>
          State (mgr (afterRun err w1)) = BackgroundProcessStateStopped)
     \<and> (err = None \<and> State (mgr w1) \<noteq> BackgroundProcessStateStopping
          \<and> State (mgr w1) \<noteq> BackgroundProcessStateError \<longrightarrow>
          State (mgr (afterRun err w1)) = BackgroundProcessStateCompleted)
     \<and> (err = None \<and> State (mgr w1) = BackgroundProcessStateError \<longrightarrow>
          State (mgr (afterRun err w1)) = BackgroundProcessStateError)"
  using runTask_Returns [OF assms] afterRun_transitions [of err w1] by blast

theorem runTask_after_Run_witness:
  "runTask (stubProcess (Some timeoutError)) memBucket testBase retryOnce plainOptions
     (setRunState BackgroundProcessStateRunning (NewResyncManager emptyExt))
     = Returns (afterRun (Some timeoutError)
                  (setRunState BackgroundProcessStateRunning (NewResyncManager emptyExt)))
   \<and> lastError (mgr (afterRun (Some timeoutError)
                        (setRunState BackgroundProcessStateRunning (NewResyncManager emptyExt))))
       = Some timeoutError
   \<and> State (mgr (afterRun (Some timeoutError)
                    (setRunState BackgroundProcessStateRunning (NewResyncManager emptyExt))))
       = BackgroundProcessStateError
   \<and> IsClosed 0 (afterRun (Some timeoutError)
                   (setRunState BackgroundProcessStateRunning (NewResyncManager emptyExt)))
   \<and> State (mgr (afterRun None
                    (setRunState BackgroundProcessStateStopping (NewResyncManager emptyExt))))
       = BackgroundProcessStateStopped
   \<and> IsClosed 0 (afterRun None
                   (setRunState BackgroundProcessStateStopping (NewResyncManager emptyExt)))
   \<and> State (mgr (afterRun None
                    (setRunState BackgroundProcessStateRunning (NewResyncManager emptyExt))))
       = BackgroundProcessStateCompleted"
proof -
  let ?run = "setRunState BackgroundProcessStateRunning (NewResyncManager emptyExt)"
  let ?stop = "setRunState BackgroundProcessStateStopping (NewResyncManager emptyExt)"
  have r: "\<And>err w. Run (stubProcess err) plainOptions
             (UpdateStatusClusterAware (stubProcess err) memBucket testBase retryOnce)
             (terminator (mgr w)) w = Returns (err, w)"
    by (simp add: stubProcess_sel)
  have s: "mgr ?run = (mgr (NewResyncManager emptyExt))\<lparr>State := BackgroundProcessStateRunning\<rparr>"
    "mgr ?stop = (mgr (NewResyncManager emptyExt))\<lparr>State := BackgroundProcessStateStopping\<rparr>"
    by (simp_all add: setRunState_def)
  have n: "clusterAwareOptions (mgr (NewResyncManager emptyExt)) = None"
    "terminator (mgr (NewResyncManager emptyExt)) = 0"
    by (simp_all add: NewResyncManager_def)
  show ?thesis
    using runTask_after_Run [OF r [of "Some timeoutError" ?run]]
      runTask_after_Run [OF r [of None ?stop]]
      runTask_after_Run [OF r [of None ?run]]
    by (simp add: s n)
qed

section \<open>Reading the status\<close>

lemma getStatusFromCluster_patch:
  assumes opts: "clusterAwareOptions (mgr w) = Some opts"
    and st: "GetRaw bk (StatusDocID bs opts) (ext w) = ((status, statusCas, None), x1)"
    and um: "JSONUnmarshalMap bs (bytes status) = (clusterStatus, None)"
    and fld: "clusterStatus ''status'' = Some (JString clusterState)"
    and live: "clusterState \<noteq> BackgroundProcessStateCompleted"
       "clusterState \<noteq> BackgroundProcessStateStopped"
       "clusterState \<noteq> BackgroundProcessStateError"
    and hb: "GetRaw bk (HeartbeatDocID bs opts) x1 = ((hbv, hbCas, Some DocNotFoundError), x2)"
    and ma: "JSONMarshalMap bs (clusterStatus(''status'' \<mapsto> JString BackgroundProcessStateStopped))
               = (patched, None)"
  shows "getStatusFromCluster bk bs w
           = Returns ((patched, None),
               w\<lparr>ext := snd (WriteCas bk (StatusDocID bs opts) 0 0 statusCas patched x2)\<rparr>)"
  using live
  by (simp add: getStatusFromCluster_def opts st um fld hb ma IsDocNotFoundError_def
      case_prod_beta)

text \<open>
  Claim C2. In cluster mode, when the status document is read without error, decodes
  to a map whose \<open>status\<close> field is the string \<open>running\<close> or \<open>stopping\<close>, the read of the
  heartbeat document fails with doc-not-found, and the patched map encodes to the bytes
  \<open>patched\<close>, then \<open>GetStatus\<close> returns \<open>patched\<close>, the encoding of the map with \<open>status\<close> set
  to \<open>stopped\<close>, with a nil error. The bucket is left as the CAS write of \<open>patched\<close> to the
  status document, under the CAS that was read, leaves it; the error of that write is
  not looked at.
\<close>

theorem GetStatus_patches_dead_run:
  assumes "clusterAwareOptions (mgr w) = Some opts"
    and "GetRaw bk (StatusDocID bs opts) (ext w) = ((status, statusCas, None), x1)"
    and "JSONUnmarshalMap bs (bytes status) = (clusterStatus, None)"
    and "clusterStatus ''status'' = Some (JString clusterState)"
    and "clusterState = BackgroundProcessStateRunning \<or> clusterState = BackgroundProcessStateStopping"
    and "GetRaw bk (HeartbeatDocID bs opts) x1 = ((hbv, hbCas, Some e), x2)"
    and "IsDocNotFoundError (Some e)"
    and "JSONMarshalMap bs (clusterStatus(''status'' \<mapsto> JString BackgroundProcessStateStopped))
           = (Some patched, None)"
  shows "GetStatus P bk bs w
           = Returns ((Some patched, None),
               w\<lparr>ext := snd (WriteCas bk (StatusDocID bs opts) 0 0 statusCas (Some patched) x2)\<rparr>)"
proof -
  have e: "e = DocNotFoundError"
    using assms(7) by (simp add: IsDocNotFoundError_def)
  have live: "clusterState \<noteq> BackgroundProcessStateCompleted"
    "clusterState \<noteq> BackgroundProcessStateStopped"
    "clusterState \<noteq> BackgroundProcessStateError"
    using assms(5) by auto
  have "getStatusFromCluster bk bs w
          = Returns ((Some patched, None),
              w\<lparr>ext := snd (WriteCas bk (StatusDocID bs opts) 0 0 statusCas (Some patched) x2)\<rparr>)"
    using getStatusFromCluster_patch [OF assms(1) assms(2) assms(3) assms(4) live _ assms(8)]
      assms(6) e by simp
  then show ?thesis
    using assms(1) by (simp add: GetStatus_def isClusterAware_def)
qed

theorem GetStatus_patches_dead_run_witness:
  "GetStatus (AttachmentCompactionProcess testCompaction 0 (Inr ''run-2'')) memBucket testBase
     (NewAttachmentCompactionManager crashedExt)
   = Returns ((Some BackgroundProcessStateStopped, None),
       NewAttachmentCompactionManager
         (crashedExt\<lparr>docs := [''_sync:background_process:status:compact''
                                 \<mapsto> (Some BackgroundProcessStateStopped, 8)]\<rparr>))
   \<and> GetStatus (AttachmentCompactionProcess testCompaction 0 (Inr ''run-2'')) readOnlyBucket testBase
       (NewAttachmentCompactionManager crashedExt)
     = Returns ((Some BackgroundProcessStateStopped, None),
         NewAttachmentCompactionManager crashedExt)"
proof -
  let ?w = "NewAttachmentCompactionManager crashedExt"
  let ?opts = "\<lparr>processSuffix = ''compact'', lastSuccessfulHeartbeatUnix = 0\<rparr>"
  let ?P = "AttachmentCompactionProcess testCompaction 0 (Inr ''run-2'')"
  have 1: "clusterAwareOptions (mgr ?w) = Some ?opts"
    by (simp add: NewAttachmentCompactionManager_def)
  have 2: "GetRaw memBucket (StatusDocID testBase ?opts) (ext ?w)
             = ((Some ''running'', 7, None), crashedExt)"
    "GetRaw readOnlyBucket (StatusDocID testBase ?opts) (ext ?w)
             = ((Some ''running'', 7, None), crashedExt)"
    by (simp_all add: memBucket_sel readOnlyBucket_sel memGet_def StatusDocID_def testBase_sel
        NewAttachmentCompactionManager_def crashedExt_def)
  have 3: "JSONUnmarshalMap testBase (bytes (Some ''running''))
             = ([''status'' \<mapsto> JString ''running''], None)"
    by (simp add: testBase_sel bytes_def)
  have 4: "[''status'' \<mapsto> JString ''running''] ''status'' = Some (JString ''running'' :: unit json)"
    by simp
  have 6: "GetRaw memBucket (HeartbeatDocID testBase ?opts) crashedExt
             = ((None, 0, Some DocNotFoundError), crashedExt)"
    "GetRaw readOnlyBucket (HeartbeatDocID testBase ?opts) crashedExt
             = ((None, 0, Some DocNotFoundError), crashedExt)"
    by (simp_all add: memBucket_sel readOnlyBucket_sel memGet_def HeartbeatDocID_def testBase_sel
        crashedExt_def)
  have 7: "IsDocNotFoundError (Some DocNotFoundError)"
    by (simp add: IsDocNotFoundError_def)
  have 8: "JSONMarshalMap testBase
             ([''status'' \<mapsto> JString ''running'' :: unit json]
                (''status'' \<mapsto> JString BackgroundProcessStateStopped))
             = (Some BackgroundProcessStateStopped, None)"
    by (simp add: testBase_sel)
  show ?thesis
    using GetStatus_patches_dead_run [OF 1 2(1) 3 4 _ 6(1) 7 8, of ?P]
      GetStatus_patches_dead_run [OF 1 2(2) 3 4 _ 6(2) 7 8, of ?P]
    by (simp add: memBucket_sel readOnlyBucket_sel memPut_def StatusDocID_def testBase_sel
        crashedExt_def NewAttachmentCompactionManager_def)
qed

section \<open>Claiming the lease\<close>

lemma markStart_cluster_mismatch:
  assumes "clusterAwareOptions (mgr w) = Some opts"
    and "IsCasMismatch (snd (fst (WriteCas bk (HeartbeatDocID bs opts) 0
            BackgroundManagerHeartbeatExpirySecs 0 (Some ''{}'') (ext w))))"
  shows "fst (markStart bk bs w)
           = Some (HTTPError StatusServiceUnavailable ''Process already running'')
         \<and> mgr (snd (markStart bk bs w)) = mgr w
         \<and> closed (snd (markStart bk bs w)) = closed w
         \<and> spawned (snd (markStart bk bs w)) = spawned w"
  using assms by (simp add: markStart_def case_prod_beta)

lemma markStart_cluster_other:
  assumes "clusterAwareOptions (mgr w) = Some opts"
    and "\<not> IsCasMismatch (snd (fst (WriteCas bk (HeartbeatDocID bs opts) 0
            BackgroundManagerHeartbeatExpirySecs 0 (Some ''{}'') (ext w))))"
  shows "fst (markStart bk bs w) = None
         \<and> State (mgr (snd (markStart bk bs w))) = BackgroundProcessStateRunning"
  using assms
  by (simp add: markStart_def case_prod_beta NewSafeTerminator_def go_spawn_def Let_def)

text \<open>
  Claim C3. The claim says that in cluster mode an error of \<^verbatim>\<open>WriteCas\<close> other than a
  CAS mismatch is returned to the caller and the state is not set to \<open>running\<close>. On a
  bucket whose write times out, \<open>markStart\<close> on a new attachment compaction manager
  returns nil, sets the state to \<open>running\<close> and starts the heartbeat loop, although no
  heartbeat document was written.
\<close>

theorem markStart_WriteCas_timeout:
  "fst (WriteCas timeoutBucket ''_sync:background_process:heartbeat:compact'' 0
          BackgroundManagerHeartbeatExpirySecs 0 (Some ''{}'') emptyExt)
     = (0, Some timeoutError)
   \<and> fst (markStart timeoutBucket testBase (NewAttachmentCompactionManager emptyExt)) = None
   \<and> State (mgr (snd (markStart timeoutBucket testBase (NewAttachmentCompactionManager emptyExt))))
       = BackgroundProcessStateRunning
   \<and> spawned (snd (markStart timeoutBucket testBase (NewAttachmentCompactionManager emptyExt)))
       = [HeartbeatLoop]
   \<and> docs (ext (snd (markStart timeoutBucket testBase (NewAttachmentCompactionManager emptyExt))))
       = Map.empty"
  by (simp add: markStart_def case_prod_beta NewSafeTerminator_def go_spawn_def Let_def
      timeoutBucket_sel NewAttachmentCompactionManager_def IsCasMismatch_def timeoutError_def
      emptyExt_def)

section \<open>Renewing the heartbeat\<close>

lemma UpdateHeartbeat_error_threshold:
  assumes "clusterAwareOptions (mgr w) = Some opts"
    and "GetAndTouchRaw bk (HeartbeatDocID bs opts) BackgroundManagerHeartbeatExpirySecs (ext w)
           = ((v, c, Some e), x1)"
    and "\<not> (IsDocNotFoundError (Some e) \<and> closed w (terminator (mgr w)))"
  shows "UpdateHeartbeatDocClusterAware bk bs now w
           = Returns (if Sub now (Unix (lastSuccessfulHeartbeatUnix opts) 0) > 29 then Some e else None,
                      w\<lparr>ext := x1\<rparr>)"
  using assms
  by (auto simp add: UpdateHeartbeatDocClusterAware_def IsClosed_def
      BackgroundManagerHeartbeatExpirySecs_def BackgroundManagerHeartbeatIntervalSecs_def)

lemma UpdateHeartbeat_notfound_closed:
  assumes "clusterAwareOptions (mgr w) = Some opts"
    and "GetAndTouchRaw bk (HeartbeatDocID bs opts) BackgroundManagerHeartbeatExpirySecs (ext w)
           = ((v, c, Some e), x1)"
    and "IsDocNotFoundError (Some e)" and "closed w (terminator (mgr w))"
  shows "UpdateHeartbeatDocClusterAware bk bs now w = Returns (None, w\<lparr>ext := x1\<rparr>)"
  using assms by (simp add: UpdateHeartbeatDocClusterAware_def IsClosed_def)

text \<open>
  Claim C4. The claim says that a failed renewal is escalated only when more than
  29 seconds have passed since the last successful heartbeat, and is swallowed
  otherwise. The code compares the elapsed \<^verbatim>\<open>time.Duration\<close>, a count of nanoseconds,
  with the bare number 29. With the last successful heartbeat at second 1000, the clock
  at second 1005, the terminator open and a bucket that times out, the elapsed time is
  5 seconds and the renewal returns the error.
\<close>

theorem UpdateHeartbeat_escalates_after_5s:
  "Sub (Unix 1005 0) (Unix 1000 0) = 5 * Second
   \<and> \<not> IsClosed (terminator (mgr (heartbeatAt 1000))) (heartbeatAt 1000)
   \<and> UpdateHeartbeatDocClusterAware timeoutBucket testBase (Unix 1005 0) (heartbeatAt 1000)
       = Returns (Some timeoutError, heartbeatAt 1000)"
  by (simp add: UpdateHeartbeatDocClusterAware_def heartbeatAt_def timeoutBucket_sel
      NewAttachmentCompactionManager_def IsDocNotFoundError_def timeoutError_def Sub_def Unix_def
      wrap64_def unixToInternal_def
      minDuration_def maxDuration_def Second_def BackgroundManagerHeartbeatExpirySecs_def
      BackgroundManagerHeartbeatIntervalSecs_def IsClosed_def)

section \<open>Attachment compaction: Init\<close>

lemma newRunInit_Inr:
  "newRunInit options (Inr u) a
     = (None, a\<lparr>dryRun := (options ''dryRun'' = Some (VBool True)), CompactID := u\<rparr>)"
  by (auto simp: newRunInit_def split: option.splits optval.splits)

lemma newRunInit_Inl: "newRunInit options (Inl e) a = (Some e, a)"
  by (simp add: newRunInit_def)

lemma reset_flag:
  "(case options ''reset'' of Some (VBool r) \<Rightarrow> (r, True) | _ \<Rightarrow> (False, False)) = (r, ok)
   \<Longrightarrow> (r \<and> ok) = (options ''reset'' = Some (VBool True))"
  by (auto split: option.splits optval.splits)

lemma Init_None:
  assumes "options ''database'' = Some VDatabase"
  shows "AttachmentCompactionManager_Init D now uuid options None w
           = Returns (fst (newRunInit options uuid (Process (mgr w))),
               w\<lparr>ext := SetCompactionAttachmentStartTime D (Time_Unix now) (ext w),
                 mgr := (mgr w)\<lparr>Process := snd (newRunInit options uuid (Process (mgr w)))\<rparr>\<rparr>)"
  using assms by (simp add: AttachmentCompactionManager_Init_def Let_def case_prod_beta)

lemma Init_Some_fresh:
  assumes "options ''database'' = Some VDatabase"
    and "State (fst (JSONUnmarshalAttachment D st)) = BackgroundProcessStateCompleted
         \<or> snd (JSONUnmarshalAttachment D st) \<noteq> None
         \<or> options ''reset'' = Some (VBool True)"
  shows "AttachmentCompactionManager_Init D now uuid options (Some st) w
           = Returns (fst (newRunInit options uuid (Process (mgr w))),
               w\<lparr>ext := SetCompactionAttachmentStartTime D (Time_Unix now) (ext w),
                 mgr := (mgr w)\<lparr>Process := snd (newRunInit options uuid (Process (mgr w)))\<rparr>\<rparr>)"
proof -
  obtain r ok where
    ro: "(case options ''reset'' of Some (VBool r) \<Rightarrow> (r, True) | _ \<Rightarrow> (False, False)) = (r, ok)"
    by (cases "case options ''reset'' of Some (VBool r) \<Rightarrow> (r, True) | _ \<Rightarrow> (False, False)") auto
  have "(r \<and> ok) = (options ''reset'' = Some (VBool True))"
    using ro by (rule reset_flag)
  then show ?thesis
    using assms ro
    by (auto simp add: AttachmentCompactionManager_Init_def Let_def case_prod_beta)
qed

lemma Init_Some_resume:
  assumes "options ''database'' = Some VDatabase"
    and "State (fst (JSONUnmarshalAttachment D st)) \<noteq> BackgroundProcessStateCompleted"
    and "snd (JSONUnmarshalAttachment D st) = None"
    and "options ''reset'' \<noteq> Some (VBool True)"
  shows "AttachmentCompactionManager_Init D now uuid options (Some st) w
           = Returns (None,
               w\<lparr>ext := SetCompactionAttachmentStartTime D (Time_Unix now) (ext w),
                 mgr := (mgr w)\<lparr>Process := (Process (mgr w))
                   \<lparr>CompactID := AttachmentManagerResponse.CompactID (fst (JSONUnmarshalAttachment D st)),
                    Phase := AttachmentManagerResponse.Phase (fst (JSONUnmarshalAttachment D st)),
                    dryRun := DryRun (fst (JSONUnmarshalAttachment D st)),
                    MarkedAttachments :=
                      AttachmentManagerResponse.MarkedAttachments (fst (JSONUnmarshalAttachment D st)),
                    PurgedAttachments :=
                      AttachmentManagerResponse.PurgedAttachments (fst (JSONUnmarshalAttachment D st))\<rparr>\<rparr>\<rparr>)"
proof -
  obtain r ok where
    ro: "(case options ''reset'' of Some (VBool r) \<Rightarrow> (r, True) | _ \<Rightarrow> (False, False)) = (r, ok)"
    by (cases "case options ''reset'' of Some (VBool r) \<Rightarrow> (r, True) | _ \<Rightarrow> (False, False)") auto
  have "(r \<and> ok) = (options ''reset'' = Some (VBool True))"
    using ro by (rule reset_flag)
  then show ?thesis
    using assms ro
    by (auto simp add: AttachmentCompactionManager_Init_def Let_def case_prod_beta)
qed

text \<open>A fresh run keeps the phase field and the counters that the manager holds in
  memory: \<open>newRunInit\<close> sets the compact ID and the dry-run flag only.\<close>

lemma newRunInit_keeps_phase:
  "Phase (snd (newRunInit options uuid a)) = Phase a
   \<and> MarkedAttachments (snd (newRunInit options uuid a)) = MarkedAttachments a
   \<and> PurgedAttachments (snd (newRunInit options uuid a)) = PurgedAttachments a"
  by (cases uuid) (simp_all add: newRunInit_def Let_def)

text \<open>
  Claim C5. \<open>Init\<close> on options that hold the database returns (it does not panic), and:
  if the prior status bytes are nil, or they are present and decode to the state
  \<open>completed\<close>, or fail to decode, or the options hold \<open>reset = true\<close>, the run is fresh:
  when the UUID generator gives \<open>u\<close>, \<open>Init\<close> returns nil, the compact ID is \<open>u\<close> and the
  dry-run flag is the one of the options (when the generator fails, its error is
  returned and the process is unchanged). Otherwise \<open>Init\<close> returns nil and takes the
  compact ID, the phase, the dry-run flag and the two counters from the decoded status.
\<close>

theorem Init_fresh_or_resume:
  assumes db: "options ''database'' = Some VDatabase"
  shows "\<exists>err w'.
     AttachmentCompactionManager_Init D now uuid options clusterStatus w = Returns (err, w')
     \<and> ((clusterStatus = None
          \<or> (\<exists>st. clusterStatus = Some st
                \<and> (State (fst (JSONUnmarshalAttachment D st)) = BackgroundProcessStateCompleted
                   \<or> snd (JSONUnmarshalAttachment D st) \<noteq> None
                   \<or> options ''reset'' = Some (VBool True))))
         \<longrightarrow> (\<forall>u. uuid = Inr u \<longrightarrow>
                 err = None
                 \<and> CompactID (Process (mgr w')) = u
                 \<and> dryRun (Process (mgr w')) = (options ''dryRun'' = Some (VBool True)))
             \<and> (\<forall>e. uuid = Inl e \<longrightarrow> err = Some e \<and> Process (mgr w') = Process (mgr w)))
     \<and> (\<forall>st. clusterStatus = Some st
            \<and> State (fst (JSONUnmarshalAttachment D st)) \<noteq> BackgroundProcessStateCompleted
            \<and> snd (JSONUnmarshalAttachment D st) = None
            \<and> options ''reset'' \<noteq> Some (VBool True)
          \<longrightarrow> err = None
              \<and> CompactID (Process (mgr w'))
                  = AttachmentManagerResponse.CompactID (fst (JSONUnmarshalAttachment D st))
              \<and> Phase (Process (mgr w'))
                  = AttachmentManagerResponse.Phase (fst (JSONUnmarshalAttachment D st))
              \<and> dryRun (Process (mgr w')) = DryRun (fst (JSONUnmarshalAttachment D st))
              \<and> MarkedAttachments (Process (mgr w'))
                  = AttachmentManagerResponse.MarkedAttachments (fst (JSONUnmarshalAttachment D st))
              \<and> PurgedAttachments (Process (mgr w'))
                  = AttachmentManagerResponse.PurgedAttachments (fst (JSONUnmarshalAttachment D st)))"
proof (cases clusterStatus)
  case None
  show ?thesis
  proof (cases uuid)
    case (Inl e)
    then show ?thesis using None db by (simp add: Init_None newRunInit_Inl)
  next
    case (Inr u)
    then show ?thesis using None db by (simp add: Init_None newRunInit_Inr)
  qed
next
  case (Some st)
  show ?thesis
  proof (cases "State (fst (JSONUnmarshalAttachment D st)) = BackgroundProcessStateCompleted
         \<or> snd (JSONUnmarshalAttachment D st) \<noteq> None
         \<or> options ''reset'' = Some (VBool True)")
    case True
    show ?thesis
    proof (cases uuid)
      case (Inl e)
      then show ?thesis
        using Some True db by (auto simp add: Init_Some_fresh newRunInit_Inl)
    next
      case (Inr u)
      then show ?thesis
        using Some True db by (auto simp add: Init_Some_fresh newRunInit_Inr)
    qed
  next
    case False
    then have f: "State (fst (JSONUnmarshalAttachment D st)) \<noteq> BackgroundProcessStateCompleted"
      "snd (JSONUnmarshalAttachment D st) = None"
      "options ''reset'' \<noteq> Some (VBool True)"
      by auto
    show ?thesis
      using Some f db by (simp add: Init_Some_resume)
  qed
qed

theorem Init_fresh_or_resume_witness:
  "AttachmentCompactionManager_Init testCompaction (Unix 100 0) (Inr ''run-1'')
     (plainOptions(''dryRun'' \<mapsto> VBool True)) None (NewAttachmentCompactionManager emptyExt)
   = Returns (None,
       (NewAttachmentCompactionManager emptyExt)
         \<lparr>mgr := (mgr (NewAttachmentCompactionManager emptyExt))
            \<lparr>Process := \<lparr>MarkedAttachments = 0, PurgedAttachments = 0, CompactID = ''run-1'',
                          Phase = [], dryRun = True\<rparr>\<rparr>,
          ext := emptyExt\<lparr>compactionAttachmentStartTime := 100\<rparr>\<rparr>)
   \<and> AttachmentCompactionManager_Init testCompaction (Unix 100 0) (Inr ''run-2'')
       resetOptions (Some ''sweeping'') (NewAttachmentCompactionManager emptyExt)
     = Returns (None,
         (NewAttachmentCompactionManager emptyExt)
           \<lparr>mgr := (mgr (NewAttachmentCompactionManager emptyExt))
              \<lparr>Process := \<lparr>MarkedAttachments = 0, PurgedAttachments = 0, CompactID = ''run-2'',
                            Phase = [], dryRun = False\<rparr>\<rparr>,
            ext := emptyExt\<lparr>compactionAttachmentStartTime := 100\<rparr>\<rparr>)
   \<and> AttachmentCompactionManager_Init testCompaction (Unix 100 0) (Inr ''run-2'')
       plainOptions (Some ''sweeping'') (NewAttachmentCompactionManager emptyExt)
     = Returns (None,
         (NewAttachmentCompactionManager emptyExt)
           \<lparr>mgr := (mgr (NewAttachmentCompactionManager emptyExt))
              \<lparr>Process := \<lparr>MarkedAttachments = 500, PurgedAttachments = 120, CompactID = ''run-1'',
                            Phase = ''sweep'', dryRun = True\<rparr>\<rparr>,
            ext := emptyExt\<lparr>compactionAttachmentStartTime := 100\<rparr>\<rparr>)
   \<and> AttachmentCompactionManager_Init testCompaction (Unix 100 0) (Inr ''run-2'')
       plainOptions (Some ''done'') (NewAttachmentCompactionManager emptyExt)
     = Returns (None,
         (NewAttachmentCompactionManager emptyExt)
           \<lparr>mgr := (mgr (NewAttachmentCompactionManager emptyExt))
              \<lparr>Process := \<lparr>MarkedAttachments = 0, PurgedAttachments = 0, CompactID = ''run-2'',
                            Phase = [], dryRun = False\<rparr>\<rparr>,
            ext := emptyExt\<lparr>compactionAttachmentStartTime := 100\<rparr>\<rparr>)
   \<and> AttachmentCompactionManager_Init testCompaction (Unix 100 0) (Inr ''run-2'')
       plainOptions (Some ''{'') (NewAttachmentCompactionManager emptyExt)
     = Returns (None,
         (NewAttachmentCompactionManager emptyExt)
           \<lparr>mgr := (mgr (NewAttachmentCompactionManager emptyExt))
              \<lparr>Process := \<lparr>MarkedAttachments = 0, PurgedAttachments = 0, CompactID = ''run-2'',
                            Phase = [], dryRun = False\<rparr>\<rparr>,
            ext := emptyExt\<lparr>compactionAttachmentStartTime := 100\<rparr>\<rparr>)
   \<and> AttachmentCompactionManager_Init testCompaction (Unix 100 0) (Inl timeoutError)
       plainOptions None (NewAttachmentCompactionManager emptyExt)
     = Returns (Some timeoutError,
         (NewAttachmentCompactionManager emptyExt)
           \<lparr>ext := emptyExt\<lparr>compactionAttachmentStartTime := 100\<rparr>\<rparr>)"
proof -
  have db: "(plainOptions(''dryRun'' \<mapsto> VBool True)) ''database'' = Some VDatabase"
    "resetOptions ''database'' = Some VDatabase"
    "plainOptions ''database'' = Some VDatabase"
    by (simp_all add: plainOptions_def resetOptions_def)
  show ?thesis
    using Init_fresh_or_resume [where options = "plainOptions(''dryRun'' \<mapsto> VBool True)"
        and D = testCompaction and now = "Unix 100 0" and uuid = "Inr ''run-1''"
        and clusterStatus = None and w = "NewAttachmentCompactionManager emptyExt", OF db(1)]
      Init_fresh_or_resume [where options = resetOptions
        and D = testCompaction and now = "Unix 100 0" and uuid = "Inr ''run-2''"
        and clusterStatus = "Some ''sweeping''" and w = "NewAttachmentCompactionManager emptyExt",
        OF db(2)]
      Init_fresh_or_resume [where options = plainOptions
        and D = testCompaction and now = "Unix 100 0" and uuid = "Inr ''run-2''"
        and clusterStatus = "Some ''sweeping''" and w = "NewAttachmentCompactionManager emptyExt",
        OF db(3)]
      Init_fresh_or_resume [where options = plainOptions
        and D = testCompaction and now = "Unix 100 0" and uuid = "Inr ''run-2''"
        and clusterStatus = "Some ''done''" and w = "NewAttachmentCompactionManager emptyExt",
        OF db(3)]
      Init_fresh_or_resume [where options = plainOptions
        and D = testCompaction and now = "Unix 100 0" and uuid = "Inr ''run-2''"
        and clusterStatus = "Some ''{''" and w = "NewAttachmentCompactionManager emptyExt",
        OF db(3)]
      Init_fresh_or_resume [where options = plainOptions
        and D = testCompaction and now = "Unix 100 0" and uuid = "Inl timeoutError"
        and clusterStatus = None and w = "NewAttachmentCompactionManager emptyExt",
        OF db(3)]
    by (simp add: eval_defs plainOptions_def resetOptions_def sweepingStatus_def
        completedStatus_def zeroStatus_def NewAttachmentCompactionManager_def emptyExt_def)
qed

section \<open>Attachment compaction: Run\<close>

lemma Phase_SetPhase: "Phase (Process (mgr (SetPhase p w))) = p"
  by (simp add: SetPhase_def)

lemma persist_after_setPhase:
  "persistClusterStatus cb (setPhase_logged p (w, tr))
     = (snd (cb (SetPhase p w)), tr @ [SetPhaseCall p, PersistCall p])"
  by (simp add: persistClusterStatus_def setPhase_logged_def case_prod_beta Phase_SetPhase)

lemma work_logged_eq:
  "work_logged p f t (w, tr)
     = (fst (f w), (snd (f w), tr @ [WorkCall p (fst (f w)) (IsClosed t (snd (f w)))]))"
  by (simp add: work_logged_def case_prod_beta)

lemma afterSwitch_eq:
  "afterSwitch (w, tr) = (None, (SetPhase [] w, tr @ [SetPhaseCall []]))"
  by (simp add: afterSwitch_def setPhase_logged_def)

lemma phaseWork_simps:
  "phaseWork D ''mark'' t w = Mark D (CompactID (Process (mgr w))) t w"
  "phaseWork D ''sweep'' t w
     = Sweep D (CompactID (Process (mgr w))) (dryRun (Process (mgr w))) t w"
  "phaseWork D ''cleanup'' t w = Cleanup D (CompactID (Process (mgr w))) t w"
  by (simp_all add: phaseWork_def)

lemma ladder_run_returned:
  assumes "fst (phaseWork D p t (snd (cb (SetPhase p w)))) \<noteq> None
           \<or> IsClosed t (snd (phaseWork D p t (snd (cb (SetPhase p w)))))"
  shows "ladder_run D cb t (p # ps) w
           [SetPhaseCall p, PersistCall p,
            WorkCall p (fst (phaseWork D p t (snd (cb (SetPhase p w)))))
              (IsClosed t (snd (phaseWork D p t (snd (cb (SetPhase p w)))))),
            PersistCall (Phase (Process (mgr (snd (phaseWork D p t (snd (cb (SetPhase p w))))))))]
           (fst (phaseWork D p t (snd (cb (SetPhase p w)))))
           (snd (cb (snd (phaseWork D p t (snd (cb (SetPhase p w)))))))"
  by (rule ladder_run.returned [OF _ assms]) simp

lemma ladder_run_continued:
  assumes "\<not> (fst (phaseWork D p t (snd (cb (SetPhase p w)))) \<noteq> None
              \<or> IsClosed t (snd (phaseWork D p t (snd (cb (SetPhase p w))))))"
    and "ladder_run D cb t ps (snd (phaseWork D p t (snd (cb (SetPhase p w))))) calls err w'"
  shows "ladder_run D cb t (p # ps) w
           (SetPhaseCall p # PersistCall p # WorkCall p None False # calls) err w'"
proof -
  have "phaseWork D p t (snd (cb (SetPhase p w)))
          = (None, snd (phaseWork D p t (snd (cb (SetPhase p w)))))"
    using assms(1) by (simp add: prod_eq_iff)
  moreover have "\<not> IsClosed t (snd (phaseWork D p t (snd (cb (SetPhase p w)))))"
    using assms(1) by simp
  ultimately show ?thesis
    using assms(2) by (rule ladder_run.continued)
qed

lemma caseCleanup_run:
  assumes "caseCleanup D cb t (w, tr) = (err, (w', tr'))"
  shows "\<exists>calls. tr' = tr @ calls
           \<and> ladder_run D cb t [''cleanup''] w
                (calls @ [PersistCall (Phase (Process (mgr w')))]) err (snd (cb w'))"
proof -
  let ?r = "phaseWork D ''cleanup'' t (snd (cb (SetPhase ''cleanup'' w)))"
  show ?thesis
  proof (cases "fst ?r \<noteq> None \<or> IsClosed t (snd ?r)")
    case True
    then have "err = fst ?r" "w' = snd ?r"
      "tr' = tr @ [SetPhaseCall ''cleanup'', PersistCall ''cleanup'',
                   WorkCall ''cleanup'' (fst ?r) (IsClosed t (snd ?r))]"
      using assms
      by (auto simp add: caseCleanup_def persist_after_setPhase work_logged_eq Let_def
          phaseWork_simps)
    then show ?thesis
      using ladder_run_returned [where D = D and cb = cb and t = t and p = "''cleanup''" and w = w
          and ps = "[]", OF True] by simp
  next
    case False
    then have res: "err = None" "w' = SetPhase [] (snd ?r)"
      "tr' = tr @ [SetPhaseCall ''cleanup'', PersistCall ''cleanup'',
                   WorkCall ''cleanup'' None False, SetPhaseCall []]"
      using assms
      by (auto simp add: caseCleanup_def persist_after_setPhase work_logged_eq Let_def
          afterSwitch_eq phaseWork_simps)
    have "ladder_run D cb t [] (snd ?r) [SetPhaseCall [], PersistCall []] None
            (snd (cb (SetPhase [] (snd ?r))))"
      by (rule ladder_run.completed)
    from ladder_run_continued [where D = D and cb = cb and t = t and p = "''cleanup''" and w = w,
        OF False this]
    show ?thesis using res by (simp add: Phase_SetPhase)
  qed
qed

lemma caseSweep_run:
  assumes "caseSweep D cb t (w, tr) = (err, (w', tr'))"
  shows "\<exists>calls. tr' = tr @ calls
           \<and> ladder_run D cb t [''sweep'', ''cleanup''] w
                (calls @ [PersistCall (Phase (Process (mgr w')))]) err (snd (cb w'))"
proof -
  let ?r = "phaseWork D ''sweep'' t (snd (cb (SetPhase ''sweep'' w)))"
  let ?blk = "[SetPhaseCall ''sweep'', PersistCall ''sweep'',
               WorkCall ''sweep'' (fst ?r) (IsClosed t (snd ?r))]"
  show ?thesis
  proof (cases "fst ?r \<noteq> None \<or> IsClosed t (snd ?r)")
    case True
    then have "err = fst ?r" "w' = snd ?r" "tr' = tr @ ?blk"
      using assms
      by (auto simp add: caseSweep_def persist_after_setPhase work_logged_eq Let_def
          phaseWork_simps)
    then show ?thesis
      using ladder_run_returned [where D = D and cb = cb and t = t and p = "''sweep''" and w = w
          and ps = "[''cleanup'']", OF True] by simp
  next
    case False
    then have next_case: "caseCleanup D cb t (snd ?r, tr @ ?blk) = (err, (w', tr'))"
      using assms
      by (auto simp add: caseSweep_def persist_after_setPhase work_logged_eq Let_def
          phaseWork_simps)
    from caseCleanup_run [OF next_case]
    obtain calls where c: "tr' = (tr @ ?blk) @ calls"
      "ladder_run D cb t [''cleanup''] (snd ?r)
         (calls @ [PersistCall (Phase (Process (mgr w')))]) err (snd (cb w'))"
      by blast
    from ladder_run_continued [where D = D and cb = cb and t = t and p = "''sweep''" and w = w,
        OF False c(2)]
    show ?thesis using c(1) False by auto
  qed
qed

lemma caseMark_run:
  assumes "caseMark D cb t (w, tr) = (err, (w', tr'))"
  shows "\<exists>calls. tr' = tr @ calls
           \<and> ladder_run D cb t [''mark'', ''sweep'', ''cleanup''] w
                (calls @ [PersistCall (Phase (Process (mgr w')))]) err (snd (cb w'))"
proof -
  let ?r = "phaseWork D ''mark'' t (snd (cb (SetPhase ''mark'' w)))"
  let ?blk = "[SetPhaseCall ''mark'', PersistCall ''mark'',
               WorkCall ''mark'' (fst ?r) (IsClosed t (snd ?r))]"
  show ?thesis
  proof (cases "fst ?r \<noteq> None \<or> IsClosed t (snd ?r)")
    case True
    then have "err = fst ?r" "w' = snd ?r" "tr' = tr @ ?blk"
      using assms
      by (auto simp add: caseMark_def persist_after_setPhase work_logged_eq Let_def
          phaseWork_simps)
    then show ?thesis
      using ladder_run_returned [where D = D and cb = cb and t = t and p = "''mark''" and w = w
          and ps = "[''sweep'', ''cleanup'']", OF True] by simp
  next
    case False
    then have next_case: "caseSweep D cb t (snd ?r, tr @ ?blk) = (err, (w', tr'))"
      using assms
      by (auto simp add: caseMark_def persist_after_setPhase work_logged_eq Let_def
          phaseWork_simps)
    from caseSweep_run [OF next_case]
    obtain calls where c: "tr' = (tr @ ?blk) @ calls"
      "ladder_run D cb t [''sweep'', ''cleanup''] (snd ?r)
         (calls @ [PersistCall (Phase (Process (mgr w')))]) err (snd (cb w'))"
      by blast
    from ladder_run_continued [where D = D and cb = cb and t = t and p = "''mark''" and w = w,
        OF False c(2)]
    show ?thesis using c(1) False by auto
  qed
qed

lemma ladder_run_work:
  "ladder_run D cb t ps w calls err w' \<Longrightarrow> WorkCall p e c \<in> set calls \<Longrightarrow> p \<in> set ps"
  by (induction rule: ladder_run.induct) auto

inductive_cases ladder_run_NilE: "ladder_run D cb t [] w calls err w'"

inductive_cases ladder_run_ConsE: "ladder_run D cb t (p # ps) w calls err w'"

lemma ladder_run_Nil_iff:
  "ladder_run D cb t [] w calls err w'
     = (calls = [SetPhaseCall [], PersistCall []] \<and> err = None \<and> w' = snd (cb (SetPhase [] w)))"
  by (auto elim: ladder_run_NilE intro: ladder_run.completed)

lemma ladder_run_Cons_stop:
  assumes "ladder_run D cb t (p # ps) w calls err w'"
    and "fst (phaseWork D p t (snd (cb (SetPhase p w)))) \<noteq> None
         \<or> IsClosed t (snd (phaseWork D p t (snd (cb (SetPhase p w)))))"
  shows "calls = [SetPhaseCall p, PersistCall p,
            WorkCall p (fst (phaseWork D p t (snd (cb (SetPhase p w)))))
              (IsClosed t (snd (phaseWork D p t (snd (cb (SetPhase p w)))))),
            PersistCall (Phase (Process (mgr (snd (phaseWork D p t (snd (cb (SetPhase p w))))))))]
         \<and> err = fst (phaseWork D p t (snd (cb (SetPhase p w))))
         \<and> w' = snd (cb (snd (phaseWork D p t (snd (cb (SetPhase p w))))))"
  using assms(1)
proof (rule ladder_run_ConsE)
  fix v
  assume "phaseWork D p t (snd (cb (SetPhase p w))) = (err, v)"
    and "calls = [SetPhaseCall p, PersistCall p, WorkCall p err (IsClosed t v),
                  PersistCall (Phase (Process (mgr v)))]"
    and "w' = snd (cb v)"
  then show ?thesis by simp
next
  fix v cs
  assume "phaseWork D p t (snd (cb (SetPhase p w))) = (None, v)" and "\<not> IsClosed t v"
  then show ?thesis using assms(2) by simp
qed

lemma ladder_run_Cons_go:
  assumes "ladder_run D cb t (p # ps) w calls err w'"
    and "\<not> (fst (phaseWork D p t (snd (cb (SetPhase p w)))) \<noteq> None
            \<or> IsClosed t (snd (phaseWork D p t (snd (cb (SetPhase p w))))))"
  shows "\<exists>cs. calls = SetPhaseCall p # PersistCall p # WorkCall p None False # cs
           \<and> ladder_run D cb t ps (snd (phaseWork D p t (snd (cb (SetPhase p w))))) cs err w'"
  using assms(1)
proof (rule ladder_run_ConsE)
  fix v
  assume "phaseWork D p t (snd (cb (SetPhase p w))) = (err, v)"
    and "(\<exists>y. err = Some y) \<or> IsClosed t v"
  then show ?thesis using assms(2) by auto
next
  fix v cs
  assume "phaseWork D p t (snd (cb (SetPhase p w))) = (None, v)"
    and "calls = SetPhaseCall p # PersistCall p # WorkCall p None False # cs"
    and "ladder_run D cb t ps v cs err w'"
  then show ?thesis by simp
qed

lemma ladder_run_unique:
  "ladder_run D cb t ps w calls err w' \<Longrightarrow> ladder_run D cb t ps w calls2 err2 w2 \<Longrightarrow>
   calls2 = calls \<and> err2 = err \<and> w2 = w'"
proof (induction ps arbitrary: w calls calls2)
  case Nil
  then show ?case by (simp add: ladder_run_Nil_iff)
next
  case (Cons p ps)
  let ?r = "phaseWork D p t (snd (cb (SetPhase p w)))"
  show ?case
  proof (cases "fst ?r \<noteq> None \<or> IsClosed t (snd ?r)")
    case True
    show ?thesis
      using ladder_run_Cons_stop [where D = D and cb = cb, OF Cons.prems(1) True]
        ladder_run_Cons_stop [where D = D and cb = cb, OF Cons.prems(2) True]
      by simp
  next
    case False
    obtain cs where 1: "calls = SetPhaseCall p # PersistCall p # WorkCall p None False # cs"
      "ladder_run D cb t ps (snd ?r) cs err w'"
      using ladder_run_Cons_go [where D = D and cb = cb, OF Cons.prems(1) False] by blast
    obtain cs2 where 2: "calls2 = SetPhaseCall p # PersistCall p # WorkCall p None False # cs2"
      "ladder_run D cb t ps (snd ?r) cs2 err2 w2"
      using ladder_run_Cons_go [where D = D and cb = cb, OF Cons.prems(2) False] by blast
    show ?thesis
      using Cons.IH [OF 1(2) 2(2)] 1(1) 2(1) by simp
  qed
qed

lemma switch_run:
  assumes "(if phase = ''mark'' \<or> phase = [] then caseMark D cb t (w, [])
            else if phase = ''sweep'' then caseSweep D cb t (w, [])
            else if phase = ''cleanup'' then caseCleanup D cb t (w, [])
            else afterSwitch (w, [])) = (err, (w', tr'))"
  shows "ladder_run D cb t (ladder phase) w
           (tr' @ [PersistCall (Phase (Process (mgr w')))]) err (snd (cb w'))"
proof -
  consider (m) "phase = ''mark'' \<or> phase = []"
    | (s) "phase = ''sweep''"
    | (c) "phase = ''cleanup''"
    | (o) "phase \<noteq> ''mark''" "phase \<noteq> []" "phase \<noteq> ''sweep''" "phase \<noteq> ''cleanup''"
    by blast
  then show ?thesis
  proof cases
    case m
    then have "caseMark D cb t (w, []) = (err, (w', tr'))" using assms by simp
    from caseMark_run [OF this] show ?thesis using m by (auto simp add: ladder_def)
  next
    case s
    then have "caseSweep D cb t (w, []) = (err, (w', tr'))" using assms by simp
    from caseSweep_run [OF this] show ?thesis using s by (auto simp add: ladder_def)
  next
    case c
    then have "caseCleanup D cb t (w, []) = (err, (w', tr'))" using assms by simp
    from caseCleanup_run [OF this] show ?thesis using c by (auto simp add: ladder_def)
  next
    case o
    then have "err = None" "w' = SetPhase [] w" "tr' = [SetPhaseCall []]"
      using assms by (auto simp add: afterSwitch_eq)
    then show ?thesis
      using o ladder_run.completed [of D cb t w] by (simp add: ladder_def Phase_SetPhase)
  qed
qed

text \<open>
  Claim C6. \<open>Run\<close> on options that hold the database returns, and its calls, its result
  and the state it leaves are those of the ladder of the phase it starts with:
  \<open>mark, sweep, cleanup\<close> from \<open>mark\<close> or the empty phase, \<open>sweep, cleanup\<close> from \<open>sweep\<close>,
  \<open>cleanup\<close> from \<open>cleanup\<close>. Each phase sets the phase field, hands that state to the
  status callback, then applies its phase function (\<^verbatim>\<open>Mark\<close>, \<^verbatim>\<open>Sweep\<close> or \<^verbatim>\<open>Cleanup\<close>) to
  the state the callback left; a phase whose function returns an error or leaves the
  terminator closed is the last one, \<open>Run\<close> returns its error and only the deferred
  persist follows; after a \<open>cleanup\<close> without error and with the terminator open the
  phase field is set to the empty string, that state is persisted and \<open>Run\<close> returns
  nil. The ladder admits no other calls, result or final state, and no phase function
  outside it is called.
\<close>

theorem Run_phase_ladder:
  assumes db: "options ''database'' = Some VDatabase"
  shows "\<exists>err w' calls.
     AttachmentCompactionManager_Run_calls D options cb t w = Returns (err, w', calls)
     \<and> AttachmentCompactionManager_Run D options cb t w = Returns (err, w')
     \<and> ladder_run D cb t (ladder (Phase (Process (mgr w)))) w calls err w'
     \<and> (\<forall>calls2 err2 w2.
           ladder_run D cb t (ladder (Phase (Process (mgr w)))) w calls2 err2 w2
           \<longrightarrow> calls2 = calls \<and> err2 = err \<and> w2 = w')
     \<and> (\<forall>p e c. WorkCall p e c \<in> set calls \<longrightarrow> p \<in> set (ladder (Phase (Process (mgr w)))))"
proof -
  let ?phase = "Phase (Process (mgr w))"
  obtain err w1 tr1 where sw:
    "(if ?phase = ''mark'' \<or> ?phase = [] then caseMark D cb t (w, [])
      else if ?phase = ''sweep'' then caseSweep D cb t (w, [])
      else if ?phase = ''cleanup'' then caseCleanup D cb t (w, [])
      else afterSwitch (w, [])) = (err, (w1, tr1))"
    by (metis surj_pair)
  have run: "AttachmentCompactionManager_Run_calls D options cb t w
               = Returns (err, snd (cb w1), tr1 @ [PersistCall (Phase (Process (mgr w1)))])"
    using db sw
    by (simp add: AttachmentCompactionManager_Run_calls_def Let_def persistClusterStatus_def
        case_prod_beta)
  have lr: "ladder_run D cb t (ladder ?phase) w
              (tr1 @ [PersistCall (Phase (Process (mgr w1)))]) err (snd (cb w1))"
    using switch_run [OF sw] .
  have "AttachmentCompactionManager_Run D options cb t w = Returns (err, snd (cb w1))"
    using run by (simp add: AttachmentCompactionManager_Run_def)
  then show ?thesis
    using run lr ladder_run_work [OF lr] ladder_run_unique [OF lr] by blast
qed

theorem Run_phase_ladder_witness:
  "AttachmentCompactionManager_Run_calls testCompaction plainOptions publishStatus 0
     (NewAttachmentCompactionManager emptyExt)
   = Returns (None,
       (NewAttachmentCompactionManager emptyExt)
         \<lparr>mgr := (mgr (NewAttachmentCompactionManager emptyExt))
            \<lparr>Process := \<lparr>MarkedAttachments = 3, PurgedAttachments = 2, CompactID = [],
                          Phase = [], dryRun = False\<rparr>\<rparr>,
          ext := emptyExt
            \<lparr>docs := [''_sync:background_process:status:compact''
                         \<mapsto> (Some BackgroundProcessStateCompleted, 4),
                       ''cleaned:'' \<mapsto> (Some ''{}'', 1)]\<rparr>\<rparr>,
       [SetPhaseCall ''mark'', PersistCall ''mark'', WorkCall ''mark'' None False,
        SetPhaseCall ''sweep'', PersistCall ''sweep'', WorkCall ''sweep'' None False,
        SetPhaseCall ''cleanup'', PersistCall ''cleanup'', WorkCall ''cleanup'' None False,
        SetPhaseCall [], PersistCall []])
   \<and> ladder_run testCompaction publishStatus 0 [''mark'', ''sweep'', ''cleanup'']
       (NewAttachmentCompactionManager emptyExt)
       [SetPhaseCall ''mark'', PersistCall ''mark'', WorkCall ''mark'' None False,
        SetPhaseCall ''sweep'', PersistCall ''sweep'', WorkCall ''sweep'' None False,
        SetPhaseCall ''cleanup'', PersistCall ''cleanup'', WorkCall ''cleanup'' None False,
        SetPhaseCall [], PersistCall []]
       None
       ((NewAttachmentCompactionManager emptyExt)
         \<lparr>mgr := (mgr (NewAttachmentCompactionManager emptyExt))
            \<lparr>Process := \<lparr>MarkedAttachments = 3, PurgedAttachments = 2, CompactID = [],
                          Phase = [], dryRun = False\<rparr>\<rparr>,
          ext := emptyExt
            \<lparr>docs := [''_sync:background_process:status:compact''
                         \<mapsto> (Some BackgroundProcessStateCompleted, 4),
                       ''cleaned:'' \<mapsto> (Some ''{}'', 1)]\<rparr>\<rparr>)
   \<and> AttachmentCompactionManager_Run_calls failingMark plainOptions publishStatus 0
       (NewAttachmentCompactionManager emptyExt)
     = Returns (Some timeoutError,
         (NewAttachmentCompactionManager emptyExt)
           \<lparr>mgr := (mgr (NewAttachmentCompactionManager emptyExt))
              \<lparr>Process := \<lparr>MarkedAttachments = 0, PurgedAttachments = 0, CompactID = [],
                            Phase = ''mark'', dryRun = False\<rparr>\<rparr>,
            ext := emptyExt
              \<lparr>docs := [''_sync:background_process:status:compact''
                           \<mapsto> (Some BackgroundProcessStateCompleted, 2)]\<rparr>\<rparr>,
         [SetPhaseCall ''mark'', PersistCall ''mark'', WorkCall ''mark'' (Some timeoutError) False,
          PersistCall ''mark''])
   \<and> ladder_run failingMark publishStatus 0 [''mark'', ''sweep'', ''cleanup'']
       (NewAttachmentCompactionManager emptyExt)
       [SetPhaseCall ''mark'', PersistCall ''mark'', WorkCall ''mark'' (Some timeoutError) False,
        PersistCall ''mark'']
       (Some timeoutError)
       ((NewAttachmentCompactionManager emptyExt)
         \<lparr>mgr := (mgr (NewAttachmentCompactionManager emptyExt))
            \<lparr>Process := \<lparr>MarkedAttachments = 0, PurgedAttachments = 0, CompactID = [],
                          Phase = ''mark'', dryRun = False\<rparr>\<rparr>,
          ext := emptyExt
            \<lparr>docs := [''_sync:background_process:status:compact''
                         \<mapsto> (Some BackgroundProcessStateCompleted, 2)]\<rparr>\<rparr>)
   \<and> AttachmentCompactionManager_Run_calls testCompaction plainOptions publishStatus 1
       stoppedInSweep
     = Returns (None,
         stoppedInSweep
           \<lparr>mgr := (mgr stoppedInSweep)
              \<lparr>Process := \<lparr>MarkedAttachments = 3, PurgedAttachments = 2, CompactID = ''run-1'',
                            Phase = ''sweep'', dryRun = False\<rparr>\<rparr>,
            ext := (ext stoppedInSweep)
              \<lparr>docs := [''_sync:background_process:status:compact''
                           \<mapsto> (Some BackgroundProcessStateStopped, 7)]\<rparr>\<rparr>,
         [SetPhaseCall ''sweep'', PersistCall ''sweep'', WorkCall ''sweep'' None True,
          PersistCall ''sweep''])
   \<and> ladder_run testCompaction publishStatus 1 [''sweep'', ''cleanup'']
       stoppedInSweep
       [SetPhaseCall ''sweep'', PersistCall ''sweep'', WorkCall ''sweep'' None True,
        PersistCall ''sweep'']
       None
       (stoppedInSweep
         \<lparr>mgr := (mgr stoppedInSweep)
            \<lparr>Process := \<lparr>MarkedAttachments = 3, PurgedAttachments = 2, CompactID = ''run-1'',
                          Phase = ''sweep'', dryRun = False\<rparr>\<rparr>,
          ext := (ext stoppedInSweep)
            \<lparr>docs := [''_sync:background_process:status:compact''
                         \<mapsto> (Some BackgroundProcessStateStopped, 7)]\<rparr>\<rparr>)
   \<and> (\<exists>w'. AttachmentCompactionManager_Run_calls stopDuringSweep plainOptions publishStatus 1
            (snd (markStart memBucket testBase (NewAttachmentCompactionManager emptyExt)))
          = Returns (None, w',
              [SetPhaseCall ''mark'', PersistCall ''mark'', WorkCall ''mark'' None False,
               SetPhaseCall ''sweep'', PersistCall ''sweep'', WorkCall ''sweep'' None True,
               PersistCall ''sweep''])
          \<and> State (mgr w') = BackgroundProcessStateStopping
          \<and> ladder_run stopDuringSweep publishStatus 1 [''mark'', ''sweep'', ''cleanup'']
              (snd (markStart memBucket testBase (NewAttachmentCompactionManager emptyExt)))
              [SetPhaseCall ''mark'', PersistCall ''mark'', WorkCall ''mark'' None False,
               SetPhaseCall ''sweep'', PersistCall ''sweep'', WorkCall ''sweep'' None True,
               PersistCall ''sweep'']
              None w')"
proof -
  have db: "plainOptions ''database'' = Some VDatabase"
    by (simp add: plainOptions_def)
  have phase0: "ladder (Phase (Process (mgr (NewAttachmentCompactionManager emptyExt))))
                  = [''mark'', ''sweep'', ''cleanup'']"
    by (simp add: ladder_def NewAttachmentCompactionManager_def)
  have phaseS: "ladder (Phase (Process (mgr stoppedInSweep))) = [''sweep'', ''cleanup'']"
    by (simp add: ladder_def stoppedInSweep_def)
  have phase1: "ladder (Phase (Process (mgr (snd (markStart memBucket testBase (NewAttachmentCompactionManager emptyExt))))))
                  = [''mark'', ''sweep'', ''cleanup'']"
    by (simp add: ladder_def NewAttachmentCompactionManager_def eval_defs emptyExt_def)
  have runA: "AttachmentCompactionManager_Run_calls testCompaction plainOptions publishStatus 0
      (NewAttachmentCompactionManager emptyExt)
    = Returns (None,
        (NewAttachmentCompactionManager emptyExt)
          \<lparr>mgr := (mgr (NewAttachmentCompactionManager emptyExt))
             \<lparr>Process := \<lparr>MarkedAttachments = 3, PurgedAttachments = 2, CompactID = [],
                           Phase = [], dryRun = False\<rparr>\<rparr>,
           ext := emptyExt
             \<lparr>docs := [''_sync:background_process:status:compact''
                          \<mapsto> (Some BackgroundProcessStateCompleted, 4),
                        ''cleaned:'' \<mapsto> (Some ''{}'', 1)]\<rparr>\<rparr>,
        [SetPhaseCall ''mark'', PersistCall ''mark'', WorkCall ''mark'' None False,
         SetPhaseCall ''sweep'', PersistCall ''sweep'', WorkCall ''sweep'' None False,
         SetPhaseCall ''cleanup'', PersistCall ''cleanup'', WorkCall ''cleanup'' None False,
         SetPhaseCall [], PersistCall []])"
    by (simp add: eval_defs publishStatus_def plainOptions_def
        NewAttachmentCompactionManager_def emptyExt_def fun_eq_iff)
  have runC: "AttachmentCompactionManager_Run_calls failingMark plainOptions publishStatus 0
      (NewAttachmentCompactionManager emptyExt)
    = Returns (Some timeoutError,
        (NewAttachmentCompactionManager emptyExt)
          \<lparr>mgr := (mgr (NewAttachmentCompactionManager emptyExt))
             \<lparr>Process := \<lparr>MarkedAttachments = 0, PurgedAttachments = 0, CompactID = [],
                           Phase = ''mark'', dryRun = False\<rparr>\<rparr>,
           ext := emptyExt
             \<lparr>docs := [''_sync:background_process:status:compact''
                          \<mapsto> (Some BackgroundProcessStateCompleted, 2)]\<rparr>\<rparr>,
        [SetPhaseCall ''mark'', PersistCall ''mark'', WorkCall ''mark'' (Some timeoutError) False,
         PersistCall ''mark''])"
    by (simp add: eval_defs failingMark_sel publishStatus_def plainOptions_def
        NewAttachmentCompactionManager_def emptyExt_def fun_eq_iff)
  have runD: "AttachmentCompactionManager_Run_calls testCompaction plainOptions publishStatus 1
      stoppedInSweep
    = Returns (None,
        stoppedInSweep
          \<lparr>mgr := (mgr stoppedInSweep)
             \<lparr>Process := \<lparr>MarkedAttachments = 3, PurgedAttachments = 2, CompactID = ''run-1'',
                           Phase = ''sweep'', dryRun = False\<rparr>\<rparr>,
           ext := (ext stoppedInSweep)
             \<lparr>docs := [''_sync:background_process:status:compact''
                          \<mapsto> (Some BackgroundProcessStateStopped, 7)]\<rparr>\<rparr>,
        [SetPhaseCall ''sweep'', PersistCall ''sweep'', WorkCall ''sweep'' None True,
         PersistCall ''sweep''])"
    by (simp add: eval_defs publishStatus_def plainOptions_def stoppedInSweep_def
        del: One_nat_def)
  have runB: "\<exists>w'. AttachmentCompactionManager_Run_calls stopDuringSweep plainOptions
                  publishStatus 1 (snd (markStart memBucket testBase (NewAttachmentCompactionManager emptyExt)))
            = Returns (None, w',
                [SetPhaseCall ''mark'', PersistCall ''mark'', WorkCall ''mark'' None False,
                 SetPhaseCall ''sweep'', PersistCall ''sweep'', WorkCall ''sweep'' None True,
                 PersistCall ''sweep''])
            \<and> State (mgr w') = BackgroundProcessStateStopping"
    by (simp add: eval_defs stopDuringSweep_sel publishStatus_def plainOptions_def
        NewAttachmentCompactionManager_def emptyExt_def del: One_nat_def)
  have A: "ladder_run testCompaction publishStatus 0 [''mark'', ''sweep'', ''cleanup'']
      (NewAttachmentCompactionManager emptyExt)
      [SetPhaseCall ''mark'', PersistCall ''mark'', WorkCall ''mark'' None False,
       SetPhaseCall ''sweep'', PersistCall ''sweep'', WorkCall ''sweep'' None False,
       SetPhaseCall ''cleanup'', PersistCall ''cleanup'', WorkCall ''cleanup'' None False,
       SetPhaseCall [], PersistCall []]
      None
      ((NewAttachmentCompactionManager emptyExt)
        \<lparr>mgr := (mgr (NewAttachmentCompactionManager emptyExt))
           \<lparr>Process := \<lparr>MarkedAttachments = 3, PurgedAttachments = 2, CompactID = [],
                         Phase = [], dryRun = False\<rparr>\<rparr>,
         ext := emptyExt
           \<lparr>docs := [''_sync:background_process:status:compact''
                        \<mapsto> (Some BackgroundProcessStateCompleted, 4),
                      ''cleaned:'' \<mapsto> (Some ''{}'', 1)]\<rparr>\<rparr>)"
  proof -
    have
    "\<exists>err w' calls.
       AttachmentCompactionManager_Run_calls testCompaction plainOptions publishStatus 0 (NewAttachmentCompactionManager emptyExt)
         = Returns (err, w', calls)
       \<and> AttachmentCompactionManager_Run testCompaction plainOptions publishStatus 0 (NewAttachmentCompactionManager emptyExt)
         = Returns (err, w')
       \<and> ladder_run testCompaction publishStatus 0 (ladder (Phase (Process (mgr (NewAttachmentCompactionManager emptyExt)))))
           (NewAttachmentCompactionManager emptyExt) calls err w'
       \<and> (\<forall>calls2 err2 w2.
             ladder_run testCompaction publishStatus 0 (ladder (Phase (Process (mgr (NewAttachmentCompactionManager emptyExt)))))
               (NewAttachmentCompactionManager emptyExt) calls2 err2 w2
             \<longrightarrow> calls2 = calls \<and> err2 = err \<and> w2 = w')
       \<and> (\<forall>p e c. WorkCall p e c \<in> set calls
             \<longrightarrow> p \<in> set (ladder (Phase (Process (mgr (NewAttachmentCompactionManager emptyExt))))))"
      using db by (rule Run_phase_ladder)
    then obtain err w' calls where
      r: "AttachmentCompactionManager_Run_calls testCompaction plainOptions publishStatus 0 (NewAttachmentCompactionManager emptyExt)
            = Returns (err, w', calls)"
      and l: "ladder_run testCompaction publishStatus 0 (ladder (Phase (Process (mgr (NewAttachmentCompactionManager emptyExt)))))
            (NewAttachmentCompactionManager emptyExt) calls err w'"
      by (elim exE conjE)
    have "Returns (err, w', calls)
            = Returns (None,
              (NewAttachmentCompactionManager emptyExt)
                \<lparr>mgr := (mgr (NewAttachmentCompactionManager emptyExt))
                   \<lparr>Process := \<lparr>MarkedAttachments = 3, PurgedAttachments = 2, CompactID = [],
                                 Phase = [], dryRun = False\<rparr>\<rparr>,
                 ext := emptyExt
                   \<lparr>docs := [''_sync:background_process:status:compact''
                                \<mapsto> (Some BackgroundProcessStateCompleted, 4),
                              ''cleaned:'' \<mapsto> (Some ''{}'', 1)]\<rparr>\<rparr>,
              [SetPhaseCall ''mark'', PersistCall ''mark'', WorkCall ''mark'' None False,
               SetPhaseCall ''sweep'', PersistCall ''sweep'', WorkCall ''sweep'' None False,
               SetPhaseCall ''cleanup'', PersistCall ''cleanup'', WorkCall ''cleanup'' None False,
               SetPhaseCall [], PersistCall []])"
      using r runA by (rule trans [OF sym])
    then have e: "err = None"
      "w' =
              (NewAttachmentCompactionManager emptyExt)
                \<lparr>mgr := (mgr (NewAttachmentCompactionManager emptyExt))
                   \<lparr>Process := \<lparr>MarkedAttachments = 3, PurgedAttachments = 2, CompactID = [],
                                 Phase = [], dryRun = False\<rparr>\<rparr>,
                 ext := emptyExt
                   \<lparr>docs := [''_sync:background_process:status:compact''
                                \<mapsto> (Some BackgroundProcessStateCompleted, 4),
                              ''cleaned:'' \<mapsto> (Some ''{}'', 1)]\<rparr>\<rparr>"
      "calls =
              [SetPhaseCall ''mark'', PersistCall ''mark'', WorkCall ''mark'' None False,
               SetPhaseCall ''sweep'', PersistCall ''sweep'', WorkCall ''sweep'' None False,
               SetPhaseCall ''cleanup'', PersistCall ''cleanup'', WorkCall ''cleanup'' None False,
               SetPhaseCall [], PersistCall []]"
      by (simp_all only: go.inject prod.inject)
    show ?thesis
      using l unfolding e phase0 .
  qed
  have C: "ladder_run failingMark publishStatus 0 [''mark'', ''sweep'', ''cleanup'']
       (NewAttachmentCompactionManager emptyExt)
       [SetPhaseCall ''mark'', PersistCall ''mark'', WorkCall ''mark'' (Some timeoutError) False,
        PersistCall ''mark'']
       (Some timeoutError)
       ((NewAttachmentCompactionManager emptyExt)
         \<lparr>mgr := (mgr (NewAttachmentCompactionManager emptyExt))
            \<lparr>Process := \<lparr>MarkedAttachments = 0, PurgedAttachments = 0, CompactID = [],
                          Phase = ''mark'', dryRun = False\<rparr>\<rparr>,
          ext := emptyExt
            \<lparr>docs := [''_sync:background_process:status:compact''
                         \<mapsto> (Some BackgroundProcessStateCompleted, 2)]\<rparr>\<rparr>)"
  proof -
    have
    "\<exists>err w' calls.
       AttachmentCompactionManager_Run_calls failingMark plainOptions publishStatus 0 (NewAttachmentCompactionManager emptyExt)
         = Returns (err, w', calls)
       \<and> AttachmentCompactionManager_Run failingMark plainOptions publishStatus 0 (NewAttachmentCompactionManager emptyExt)
         = Returns (err, w')
       \<and> ladder_run failingMark publishStatus 0 (ladder (Phase (Process (mgr (NewAttachmentCompactionManager emptyExt)))))
           (NewAttachmentCompactionManager emptyExt) calls err w'
       \<and> (\<forall>calls2 err2 w2.
             ladder_run failingMark publishStatus 0 (ladder (Phase (Process (mgr (NewAttachmentCompactionManager emptyExt)))))
               (NewAttachmentCompactionManager emptyExt) calls2 err2 w2
             \<longrightarrow> calls2 = calls \<and> err2 = err \<and> w2 = w')
       \<and> (\<forall>p e c. WorkCall p e c \<in> set calls
             \<longrightarrow> p \<in> set (ladder (Phase (Process (mgr (NewAttachmentCompactionManager emptyExt))))))"
      using db by (rule Run_phase_ladder)
    then obtain err w' calls where
      r: "AttachmentCompactionManager_Run_calls failingMark plainOptions publishStatus 0 (NewAttachmentCompactionManager emptyExt)
            = Returns (err, w', calls)"
      and l: "ladder_run failingMark publishStatus 0 (ladder (Phase (Process (mgr (NewAttachmentCompactionManager emptyExt)))))
            (NewAttachmentCompactionManager emptyExt) calls err w'"
      by (elim exE conjE)
    have "Returns (err, w', calls)
            = Returns (Some timeoutError,
              (NewAttachmentCompactionManager emptyExt)
                \<lparr>mgr := (mgr (NewAttachmentCompactionManager emptyExt))
                   \<lparr>Process := \<lparr>MarkedAttachments = 0, PurgedAttachments = 0, CompactID = [],
                                 Phase = ''mark'', dryRun = False\<rparr>\<rparr>,
                 ext := emptyExt
                   \<lparr>docs := [''_sync:background_process:status:compact''
                                \<mapsto> (Some BackgroundProcessStateCompleted, 2)]\<rparr>\<rparr>,
              [SetPhaseCall ''mark'', PersistCall ''mark'', WorkCall ''mark'' (Some timeoutError) False,
               PersistCall ''mark''])"
      using r runC by (rule trans [OF sym])
    then have e: "err = Some timeoutError"
      "w' =
              (NewAttachmentCompactionManager emptyExt)
                \<lparr>mgr := (mgr (NewAttachmentCompactionManager emptyExt))
                   \<lparr>Process := \<lparr>MarkedAttachments = 0, PurgedAttachments = 0, CompactID = [],
                                 Phase = ''mark'', dryRun = False\<rparr>\<rparr>,
                 ext := emptyExt
                   \<lparr>docs := [''_sync:background_process:status:compact''
                                \<mapsto> (Some BackgroundProcessStateCompleted, 2)]\<rparr>\<rparr>"
      "calls =
              [SetPhaseCall ''mark'', PersistCall ''mark'', WorkCall ''mark'' (Some timeoutError) False,
               PersistCall ''mark'']"
      by (simp_all only: go.inject prod.inject)
    show ?thesis
      using l unfolding e phase0 .
  qed
  have B: "(\<exists>w'. AttachmentCompactionManager_Run_calls stopDuringSweep plainOptions publishStatus 1
           (snd (markStart memBucket testBase (NewAttachmentCompactionManager emptyExt)))
         = Returns (None, w',
             [SetPhaseCall ''mark'', PersistCall ''mark'', WorkCall ''mark'' None False,
              SetPhaseCall ''sweep'', PersistCall ''sweep'', WorkCall ''sweep'' None True,
              PersistCall ''sweep''])
         \<and> State (mgr w') = BackgroundProcessStateStopping
         \<and> ladder_run stopDuringSweep publishStatus 1 [''mark'', ''sweep'', ''cleanup'']
             (snd (markStart memBucket testBase (NewAttachmentCompactionManager emptyExt)))
             [SetPhaseCall ''mark'', PersistCall ''mark'', WorkCall ''mark'' None False,
              SetPhaseCall ''sweep'', PersistCall ''sweep'', WorkCall ''sweep'' None True,
              PersistCall ''sweep'']
             None w')"
  proof -
    from runB obtain wB where
      rB: "AttachmentCompactionManager_Run_calls stopDuringSweep plainOptions publishStatus 1
             (snd (markStart memBucket testBase (NewAttachmentCompactionManager emptyExt)))
           = Returns (None, wB,
                [SetPhaseCall ''mark'', PersistCall ''mark'', WorkCall ''mark'' None False,
                 SetPhaseCall ''sweep'', PersistCall ''sweep'', WorkCall ''sweep'' None True,
                 PersistCall ''sweep''])"
      and sB: "State (mgr wB) = BackgroundProcessStateStopping"
      by (elim exE conjE)
    have
    "\<exists>err w' calls.
       AttachmentCompactionManager_Run_calls stopDuringSweep plainOptions publishStatus 1 (snd (markStart memBucket testBase (NewAttachmentCompactionManager emptyExt)))
         = Returns (err, w', calls)
       \<and> AttachmentCompactionManager_Run stopDuringSweep plainOptions publishStatus 1 (snd (markStart memBucket testBase (NewAttachmentCompactionManager emptyExt)))
         = Returns (err, w')
       \<and> ladder_run stopDuringSweep publishStatus 1 (ladder (Phase (Process (mgr (snd (markStart memBucket testBase (NewAttachmentCompactionManager emptyExt)))))))
           (snd (markStart memBucket testBase (NewAttachmentCompactionManager emptyExt))) calls err w'
       \<and> (\<forall>calls2 err2 w2.
             ladder_run stopDuringSweep publishStatus 1 (ladder (Phase (Process (mgr (snd (markStart memBucket testBase (NewAttachmentCompactionManager emptyExt)))))))
               (snd (markStart memBucket testBase (NewAttachmentCompactionManager emptyExt))) calls2 err2 w2
             \<longrightarrow> calls2 = calls \<and> err2 = err \<and> w2 = w')
       \<and> (\<forall>p e c. WorkCall p e c \<in> set calls
             \<longrightarrow> p \<in> set (ladder (Phase (Process (mgr (snd (markStart memBucket testBase (NewAttachmentCompactionManager emptyExt))))))))"
      using db by (rule Run_phase_ladder)
    then obtain err w' calls where
      r: "AttachmentCompactionManager_Run_calls stopDuringSweep plainOptions publishStatus 1
            (snd (markStart memBucket testBase (NewAttachmentCompactionManager emptyExt)))
            = Returns (err, w', calls)"
      and l: "ladder_run stopDuringSweep publishStatus 1
            (ladder (Phase (Process (mgr (snd (markStart memBucket testBase (NewAttachmentCompactionManager emptyExt)))))))
            (snd (markStart memBucket testBase (NewAttachmentCompactionManager emptyExt))) calls err w'"
      by (elim exE conjE)
    have "Returns (err, w', calls)
            = Returns (None, wB,
                [SetPhaseCall ''mark'', PersistCall ''mark'', WorkCall ''mark'' None False,
                 SetPhaseCall ''sweep'', PersistCall ''sweep'', WorkCall ''sweep'' None True,
                 PersistCall ''sweep''])"
      using r rB by (rule trans [OF sym])
    then have e: "err = None" "w' = wB"
      "calls =
                [SetPhaseCall ''mark'', PersistCall ''mark'', WorkCall ''mark'' None False,
                 SetPhaseCall ''sweep'', PersistCall ''sweep'', WorkCall ''sweep'' None True,
                 PersistCall ''sweep'']"
      by (simp_all only: go.inject prod.inject)
    have "ladder_run stopDuringSweep publishStatus 1 [''mark'', ''sweep'', ''cleanup'']
            (snd (markStart memBucket testBase (NewAttachmentCompactionManager emptyExt)))
                [SetPhaseCall ''mark'', PersistCall ''mark'', WorkCall ''mark'' None False,
                 SetPhaseCall ''sweep'', PersistCall ''sweep'', WorkCall ''sweep'' None True,
                 PersistCall ''sweep'']
            None wB"
      using l unfolding e phase1 .
    with rB sB show ?thesis
      by (intro exI [of _ wB] conjI)
  qed
  have D: "ladder_run testCompaction publishStatus 1 [''sweep'', ''cleanup'']
      stoppedInSweep
      [SetPhaseCall ''sweep'', PersistCall ''sweep'', WorkCall ''sweep'' None True,
       PersistCall ''sweep'']
      None
      (stoppedInSweep
        \<lparr>mgr := (mgr stoppedInSweep)
           \<lparr>Process := \<lparr>MarkedAttachments = 3, PurgedAttachments = 2, CompactID = ''run-1'',
                         Phase = ''sweep'', dryRun = False\<rparr>\<rparr>,
         ext := (ext stoppedInSweep)
           \<lparr>docs := [''_sync:background_process:status:compact''
                        \<mapsto> (Some BackgroundProcessStateStopped, 7)]\<rparr>\<rparr>)"
  proof -
    have
    "\<exists>err w' calls.
       AttachmentCompactionManager_Run_calls testCompaction plainOptions publishStatus 1 stoppedInSweep
         = Returns (err, w', calls)
       \<and> AttachmentCompactionManager_Run testCompaction plainOptions publishStatus 1 stoppedInSweep
         = Returns (err, w')
       \<and> ladder_run testCompaction publishStatus 1 (ladder (Phase (Process (mgr stoppedInSweep))))
           stoppedInSweep calls err w'
       \<and> (\<forall>calls2 err2 w2.
             ladder_run testCompaction publishStatus 1 (ladder (Phase (Process (mgr stoppedInSweep))))
               stoppedInSweep calls2 err2 w2
             \<longrightarrow> calls2 = calls \<and> err2 = err \<and> w2 = w')
       \<and> (\<forall>p e c. WorkCall p e c \<in> set calls
             \<longrightarrow> p \<in> set (ladder (Phase (Process (mgr stoppedInSweep)))))"
      using db by (rule Run_phase_ladder)
    then obtain err w' calls where
      r: "AttachmentCompactionManager_Run_calls testCompaction plainOptions publishStatus 1 stoppedInSweep
            = Returns (err, w', calls)"
      and l: "ladder_run testCompaction publishStatus 1 (ladder (Phase (Process (mgr stoppedInSweep))))
            stoppedInSweep calls err w'"
      by (elim exE conjE)
    have "Returns (err, w', calls)
            = Returns (None,
              stoppedInSweep
                \<lparr>mgr := (mgr stoppedInSweep)
                   \<lparr>Process := \<lparr>MarkedAttachments = 3, PurgedAttachments = 2, CompactID = ''run-1'',
                                 Phase = ''sweep'', dryRun = False\<rparr>\<rparr>,
                 ext := (ext stoppedInSweep)
                   \<lparr>docs := [''_sync:background_process:status:compact''
                                \<mapsto> (Some BackgroundProcessStateStopped, 7)]\<rparr>\<rparr>,
              [SetPhaseCall ''sweep'', PersistCall ''sweep'', WorkCall ''sweep'' None True,
               PersistCall ''sweep''])"
      using r runD by (rule trans [OF sym])
    then have e: "err = None"
      "w' =
              stoppedInSweep
                \<lparr>mgr := (mgr stoppedInSweep)
                   \<lparr>Process := \<lparr>MarkedAttachments = 3, PurgedAttachments = 2, CompactID = ''run-1'',
                                 Phase = ''sweep'', dryRun = False\<rparr>\<rparr>,
                 ext := (ext stoppedInSweep)
                   \<lparr>docs := [''_sync:background_process:status:compact''
                                \<mapsto> (Some BackgroundProcessStateStopped, 7)]\<rparr>\<rparr>"
      "calls =
              [SetPhaseCall ''sweep'', PersistCall ''sweep'', WorkCall ''sweep'' None True,
               PersistCall ''sweep'']"
      by (simp_all only: go.inject prod.inject)
    show ?thesis
      using l unfolding e phaseS .
  qed
  show ?thesis
    by (intro conjI) (rule runA A runC C runD D B)+
qed

section \<open>Start with reset\<close>

text \<open>The state \<open>stoppedInSweep\<close> is where a node is after a first start and a run task in
  which \<^verbatim>\<open>Stop\<close> is called during \<^verbatim>\<open>Sweep\<close>.\<close>

lemma stoppedInSweep_reachable:
  "\<exists>w. Start (AttachmentCompactionProcess stopDuringSweep (Unix 100 0) (Inr ''run-1''))
          memBucket testBase retryOnce (Unix 100 0) plainOptions
          (NewAttachmentCompactionManager emptyExt) = Returns (None, w)
       \<and> runTask (AttachmentCompactionProcess stopDuringSweep (Unix 100 0) (Inr ''run-1''))
          memBucket testBase retryOnce plainOptions w = Returns stoppedInSweep"
  by (simp add: eval_defs stopDuringSweep_sel plainOptions_def stoppedInSweep_def
      NewAttachmentCompactionManager_def emptyExt_def fun_eq_iff)

text \<open>
  Claim C7. The claim says that a start with \<open>reset = true\<close> begins at the mark phase
  whatever the manager held in memory. On the node whose earlier run was stopped
  during its sweep phase, \<open>Start\<close> with \<open>reset = true\<close> returns nil with the new compact ID
  \<open>run-2\<close> and both counters zero, but the phase field still says \<open>sweep\<close>, and the run
  that follows calls \<open>Sweep\<close> and \<open>Cleanup\<close> only: \<open>Mark\<close> is never called.
\<close>

theorem Start_reset_keeps_phase:
  "\<exists>w. Start (AttachmentCompactionProcess testCompaction (Unix 200 0) (Inr ''run-2''))
          memBucket testBase retryOnce (Unix 200 0) resetOptions stoppedInSweep = Returns (None, w)
       \<and> CompactID (Process (mgr w)) = ''run-2''
       \<and> MarkedAttachments (Process (mgr w)) = 0
       \<and> PurgedAttachments (Process (mgr w)) = 0
       \<and> Phase (Process (mgr w)) = ''sweep''
       \<and> (\<exists>w'. AttachmentCompactionManager_Run_calls testCompaction resetOptions
                  (UpdateStatusClusterAware
                     (AttachmentCompactionProcess testCompaction (Unix 200 0) (Inr ''run-2''))
                     memBucket testBase retryOnce)
                  (terminator (mgr w)) w
                = Returns (None, w',
                    [SetPhaseCall ''sweep'', PersistCall ''sweep'', WorkCall ''sweep'' None False,
                     SetPhaseCall ''cleanup'', PersistCall ''cleanup'', WorkCall ''cleanup'' None False,
                     SetPhaseCall [], PersistCall []]))"
  by (simp add: eval_defs resetOptions_def stoppedInSweep_def)

section \<open>Stopping\<close>

text \<open>
  Claim C8, amended. In local mode \<open>markStop\<close> returns "Process already stopping" in
  state \<open>stopping\<close> and "Process already stopped" in the states \<open>completed\<close> and \<open>stopped\<close>,
  the manager left as it was; in every other state, \<open>running\<close>, \<open>error\<close> and the empty
  initial state among them, it sets the state to \<open>stopping\<close> and returns nil.
\<close>

theorem markStop_local:
  assumes "clusterAwareOptions (mgr w) = None"
  shows "markStop bk bs w =
     (if State (mgr w) = BackgroundProcessStateStopping
      then (Some (HTTPError StatusServiceUnavailable ''Process already stopping''), w)
      else if State (mgr w) = BackgroundProcessStateCompleted
              \<or> State (mgr w) = BackgroundProcessStateStopped
      then (Some (HTTPError StatusServiceUnavailable ''Process already stopped''), w)
      else (None, w\<lparr>mgr := (mgr w)\<lparr>State := BackgroundProcessStateStopping\<rparr>\<rparr>))"
  using assms by (simp add: markStop_def)

theorem markStop_local_witness:
  "markStop memBucket testBase (setRunState BackgroundProcessStateStopping (NewResyncManager emptyExt))
     = (Some (HTTPError StatusServiceUnavailable ''Process already stopping''),
        setRunState BackgroundProcessStateStopping (NewResyncManager emptyExt))
   \<and> markStop memBucket testBase
       (setRunState BackgroundProcessStateCompleted (NewResyncManager emptyExt))
     = (Some (HTTPError StatusServiceUnavailable ''Process already stopped''),
        setRunState BackgroundProcessStateCompleted (NewResyncManager emptyExt))
   \<and> markStop memBucket testBase
       (setRunState BackgroundProcessStateStopped (NewResyncManager emptyExt))
     = (Some (HTTPError StatusServiceUnavailable ''Process already stopped''),
        setRunState BackgroundProcessStateStopped (NewResyncManager emptyExt))
   \<and> markStop memBucket testBase
       (setRunState BackgroundProcessStateRunning (NewResyncManager emptyExt))
     = (None, setRunState BackgroundProcessStateStopping (NewResyncManager emptyExt))
   \<and> markStop memBucket testBase
       (setRunState BackgroundProcessStateError (NewResyncManager emptyExt))
     = (None, setRunState BackgroundProcessStateStopping (NewResyncManager emptyExt))
   \<and> markStop memBucket testBase (NewResyncManager emptyExt)
     = (None, setRunState BackgroundProcessStateStopping (NewResyncManager emptyExt))"
proof -
  have local: "\<And>s. clusterAwareOptions (mgr (setRunState s (NewResyncManager emptyExt))) = None"
    "clusterAwareOptions (mgr (NewResyncManager emptyExt)) = None"
    by (simp_all add: setRunState_def NewResyncManager_def)
  show ?thesis
    using markStop_local [OF local(1) [of BackgroundProcessStateStopping], of memBucket testBase]
      markStop_local [OF local(1) [of BackgroundProcessStateCompleted], of memBucket testBase]
      markStop_local [OF local(1) [of BackgroundProcessStateStopped], of memBucket testBase]
      markStop_local [OF local(1) [of BackgroundProcessStateRunning], of memBucket testBase]
      markStop_local [OF local(1) [of BackgroundProcessStateError], of memBucket testBase]
      markStop_local [OF local(2), of memBucket testBase]
    by (simp add: setRunState_def NewResyncManager_def)
qed

text \<open>The claim as first worded has \<open>markStop\<close> answer "Process already stopped" in state
  \<open>error\<close> without a transition. On a local manager that \<open>SetError\<close> put in state \<open>error\<close>,
  \<open>markStop\<close> returns nil and the state becomes \<open>stopping\<close>.\<close>

theorem markStop_error_state_counterexample:
  "clusterAwareOptions (mgr (SetError (Some timeoutError) (NewResyncManager emptyExt))) = None
   \<and> State (mgr (SetError (Some timeoutError) (NewResyncManager emptyExt)))
       = BackgroundProcessStateError
   \<and> fst (markStop memBucket testBase (SetError (Some timeoutError) (NewResyncManager emptyExt)))
       \<noteq> Some (HTTPError StatusServiceUnavailable ''Process already stopped'')
   \<and> fst (markStop memBucket testBase (SetError (Some timeoutError) (NewResyncManager emptyExt)))
       = None
   \<and> State (mgr (snd (markStop memBucket testBase
                        (SetError (Some timeoutError) (NewResyncManager emptyExt)))))
       = BackgroundProcessStateStopping"
  by (simp add: markStop_def SetError_def Terminate_def Close_def NewResyncManager_def)

lemma markStop_error_frame:
  "markStop bk bs w = (Some e, w') \<Longrightarrow> w' = w\<lparr>ext := ext w'\<rparr>"
  by (auto simp: markStop_def Let_def split: option.splits prod.splits if_splits)

lemma markStop_terminator:
  "terminator (mgr (snd (markStop bk bs w))) = terminator (mgr w)"
  by (auto simp: markStop_def Let_def split: option.splits prod.splits if_splits)

text \<open>
  Claim C9. When \<open>Stop\<close> returns a non-nil error, \<open>markStop\<close> is what failed, and the manager
  (its state field with it) and the closed terminators are as before the call: \<open>Stop\<close> has
  closed nothing. When \<open>Stop\<close> returns nil, \<open>markStop\<close> returned nil and the manager's
  terminator is closed.
\<close>

theorem Stop_error_keeps_manager:
  "(fst (Stop bk bs w) \<noteq> None \<longrightarrow>
      fst (markStop bk bs w) \<noteq> None
      \<and> mgr (snd (Stop bk bs w)) = mgr w \<and> closed (snd (Stop bk bs w)) = closed w)
   \<and> (fst (Stop bk bs w) = None \<longrightarrow>
      fst (markStop bk bs w) = None
      \<and> IsClosed (terminator (mgr w)) (snd (Stop bk bs w)))"
proof (cases "markStop bk bs w")
  case (Pair err w1)
  show ?thesis
  proof (cases err)
    case None
    have "terminator (mgr w1) = terminator (mgr w)"
      using markStop_terminator [of bk bs w] Pair by simp
    then show ?thesis
      using Pair None by (simp add: Stop_def Terminate_def Close_def IsClosed_def)
  next
    case (Some e)
    then have "w1 = w\<lparr>ext := ext w1\<rparr>"
      using markStop_error_frame [of bk bs w e w1] Pair by simp
    then have "mgr w1 = mgr w \<and> closed w1 = closed w"
      by (metis world.select_convs(1,3) world.surjective world.update_convs(2))
    then show ?thesis
      using Pair Some by (simp add: Stop_def)
  qed
qed

theorem Stop_error_keeps_manager_witness:
  "fst (Stop memBucket testBase (setRunState BackgroundProcessStateCompleted (NewResyncManager emptyExt)))
     = Some (HTTPError StatusServiceUnavailable ''Process already stopped'')
   \<and> mgr (snd (Stop memBucket testBase (setRunState BackgroundProcessStateCompleted (NewResyncManager emptyExt))))
     = mgr (setRunState BackgroundProcessStateCompleted (NewResyncManager emptyExt))
   \<and> \<not> IsClosed 0 (snd (Stop memBucket testBase (setRunState BackgroundProcessStateCompleted (NewResyncManager emptyExt))))
   \<and> fst (Stop memBucket testBase (setRunState BackgroundProcessStateRunning (NewResyncManager emptyExt))) = None
   \<and> IsClosed 0 (snd (Stop memBucket testBase (setRunState BackgroundProcessStateRunning (NewResyncManager emptyExt))))"
  using Stop_error_keeps_manager [of memBucket testBase "setRunState BackgroundProcessStateCompleted (NewResyncManager emptyExt)"]
    Stop_error_keeps_manager [of memBucket testBase "setRunState BackgroundProcessStateRunning (NewResyncManager emptyExt)"]
  by (simp add: Stop_def markStop_def setRunState_def NewResyncManager_def Terminate_def
      Close_def IsClosed_def)

section \<open>The local status\<close>

lemma getStatusLocal_attachment_unchanged:
  "snd (getStatusLocal (AttachmentCompactionProcess D now uuid) bs w) = w"
  by (simp add: getStatusLocal_def Let_def AttachmentCompactionProcess_def
      AttachmentCompactionManager_GetProcessStatus_def case_prod_beta)

lemma GetStatus_local:
  "clusterAwareOptions (mgr w) = None \<Longrightarrow> GetStatus P bk bs w = Returns (getStatusLocal P bs w)"
  by (simp add: GetStatus_def isClusterAware_def)

text \<open>
  Claim C10. \<open>getStatusLocal\<close> hands the process a copy of the embedded status in which an
  empty state reads \<open>completed\<close> and a non-nil \<open>lastError\<close> is rendered into the message;
  the manager itself is not written: after the call its state, start time, message,
  \<open>lastError\<close>, terminator and cluster options are what they were, and so are the closed
  terminators and the external state.
\<close>

theorem getStatusLocal_frame:
  "fst (getStatusLocal P bs w)
     = fst (GetProcessStatus P
              \<lparr>State = (if State (mgr w) = [] then BackgroundProcessStateCompleted else State (mgr w)),
               StartTime = StartTime (mgr w),
               LastErrorMessage = (case lastError (mgr w) of
                                     Some e \<Rightarrow> ErrorString bs e
                                   | None \<Rightarrow> LastErrorMessage (mgr w))\<rparr>
              (Process (mgr w)))
   \<and> State (mgr (snd (getStatusLocal P bs w))) = State (mgr w)
   \<and> StartTime (mgr (snd (getStatusLocal P bs w))) = StartTime (mgr w)
   \<and> LastErrorMessage (mgr (snd (getStatusLocal P bs w))) = LastErrorMessage (mgr w)
   \<and> lastError (mgr (snd (getStatusLocal P bs w))) = lastError (mgr w)
   \<and> terminator (mgr (snd (getStatusLocal P bs w))) = terminator (mgr w)
   \<and> clusterAwareOptions (mgr (snd (getStatusLocal P bs w))) = clusterAwareOptions (mgr w)
   \<and> closed (snd (getStatusLocal P bs w)) = closed w
   \<and> ext (snd (getStatusLocal P bs w)) = ext w"
  by (cases "lastError (mgr w)")
     (simp_all add: getStatusLocal_def Let_def BackgroundManagerStatus.truncate_def
        case_prod_beta)

theorem getStatusLocal_frame_witness:
  "getStatusLocal (stubProcess None) testBase (NewResyncManager emptyExt)
     = ((Some BackgroundProcessStateCompleted, None), NewResyncManager emptyExt)
   \<and> State (mgr (NewResyncManager emptyExt)) = []
   \<and> getStatusLocal (AttachmentCompactionProcess testCompaction 0 (Inr ''run-1'')) testBase
       (SetError (Some timeoutError) (NewAttachmentCompactionManager emptyExt))
     = ((Some BackgroundProcessStateError, None),
        SetError (Some timeoutError) (NewAttachmentCompactionManager emptyExt))
   \<and> LastErrorMessage (mgr (SetError (Some timeoutError) (NewAttachmentCompactionManager emptyExt)))
     = []"
  using getStatusLocal_frame [of "stubProcess None" testBase "NewResyncManager emptyExt"]
    getStatusLocal_frame [of "AttachmentCompactionProcess testCompaction 0 (Inr ''run-1'')" testBase
      "SetError (Some timeoutError) (NewAttachmentCompactionManager emptyExt)"]
  by (simp add: eval_defs stubProcess_sel NewResyncManager_def NewAttachmentCompactionManager_def
      emptyExt_def)

end
